theory Spec2Isabelle
  imports Complex_Main "HOL-Library.AList" "HOL-Library.Sublist"
begin

section \<open>Python values\<close>

text \<open>
  The values that \<open>json.loads\<close> produces and that the item dictionaries carry: \<open>None\<close>,
  booleans, numbers, strings, lists and dictionaries. A dictionary is an association list
  read with \<open>map_of\<close>; numbers are reals.
\<close>

datatype pyval =
    PNone
  | PBool bool
  | PNum real
  | PStr string
  | PList "pyval list"
  | PDict "(string \<times> pyval) list"

type_synonym pydict = "(string \<times> pyval) list"

text \<open>Python's \<open>bool(v)\<close>.\<close>

fun truthy :: "pyval \<Rightarrow> bool" where
  "truthy PNone = False"
| "truthy (PBool b) = b"
| "truthy (PNum x) = (x \<noteq> 0)"
| "truthy (PStr s) = (s \<noteq> [])"
| "truthy (PList xs) = (xs \<noteq> [])"
| "truthy (PDict d) = (d \<noteq> [])"

text \<open>\<open>d.get(k)\<close> and \<open>d.get(k, default)\<close>.\<close>

definition py_get :: "pydict \<Rightarrow> string \<Rightarrow> pyval" where
  "py_get d k = (case map_of d k of None \<Rightarrow> PNone | Some v \<Rightarrow> v)"

definition py_get_or :: "pydict \<Rightarrow> string \<Rightarrow> pyval \<Rightarrow> pyval" where
  "py_get_or d k dflt = (case map_of d k of None \<Rightarrow> dflt | Some v \<Rightarrow> v)"

section \<open>Classification rule engine (\<open>extraction_agent.py\<close>, \<open>_classify_material\<close>)\<close>

datatype QAClassificationLabel =
    CONSUMABLE_WITH_PN_SPEC_QTY
  | CONSUMABLE_WITH_PN_QTY
  | CONSUMABLE_NO_QTY
  | CONSUMABLE_NO_PN
  | CONSUMABLE_OBSOLETE_PN
  | CONSUMABLE_PN_MISMATCH
  | VENDOR_KIT_NO_PN
  | VENDOR_NAME_ONLY
  | PRE_ASSEMBLED_KIT
  | NO_CONSUMABLE_MENTIONED
  | JIGS_TOOLS_IDENTIFIED
  | PARTIAL_INFO_AVAILABLE
  | REQUIRES_MANUAL_REVIEW

datatype ConfidenceLevel = HIGH | MEDIUM | LOW

datatype ActionPathRAG = GREEN | AMBER | RED

record classification =
  label :: QAClassificationLabel
  confidence_level :: ConfidenceLevel
  action_path :: ActionPathRAG
  reasoning :: string

text \<open>The eight locals computed at the head of \<open>_classify_material\<close>.\<close>

record flags =
  has_consumable :: bool
  has_pn :: bool
  has_qty :: bool
  has_specs :: bool
  has_vendor :: bool
  has_kit :: bool
  pn_mismatch :: bool
  obsolete_pn :: bool

definition flags_of :: "pydict \<Rightarrow> flags" where
  "flags_of material_data =
     \<lparr> has_consumable = truthy (py_get_or material_data ''consumable_jigs_tools'' (PBool False)),
       has_pn = truthy (py_get material_data ''part_number''),
       has_qty = truthy (py_get material_data ''quantity''),
       has_specs = truthy (py_get material_data ''specifications''),
       has_vendor = truthy (py_get material_data ''vendor_name''),
       has_kit = truthy (py_get_or material_data ''kit_available'' (PBool False)),
       pn_mismatch = truthy (py_get_or material_data ''pn_mismatch'' (PBool False)),
       obsolete_pn = truthy (py_get_or material_data ''obsolete_pn'' (PBool False)) \<rparr>"

text \<open>The \<open>if\<close>/\<open>elif\<close> chain, in the source's order.\<close>

definition apply_rules :: "flags \<Rightarrow> classification" where
  "apply_rules f =
     (if has_consumable f \<and> has_pn f \<and> has_qty f \<and> has_specs f then
        \<lparr> label = CONSUMABLE_WITH_PN_SPEC_QTY, confidence_level = HIGH, action_path = GREEN,
          reasoning = ''Consumable with PN, specifications, and quantity - Auto-Register'' \<rparr>
      else if has_consumable f \<and> has_pn f \<and> has_qty f then
        \<lparr> label = CONSUMABLE_WITH_PN_QTY, confidence_level = HIGH, action_path = GREEN,
          reasoning = ''Consumable with PN and quantity - Auto-Register'' \<rparr>
      else if has_consumable f \<and> has_pn f \<and> \<not> has_qty f then
        \<lparr> label = CONSUMABLE_NO_QTY, confidence_level = MEDIUM, action_path = AMBER,
          reasoning = ''Consumable with PN but no quantity - Auto with Flag'' \<rparr>
      else if has_consumable f \<and> \<not> has_pn f then
        \<lparr> label = CONSUMABLE_NO_PN, confidence_level = LOW, action_path = RED,
          reasoning = ''Consumable mentioned but no part number - Human Intervention Required'' \<rparr>
      else if obsolete_pn f then
        \<lparr> label = CONSUMABLE_OBSOLETE_PN, confidence_level = LOW, action_path = RED,
          reasoning = ''Obsolete part number detected - Human Intervention Required'' \<rparr>
      else if pn_mismatch f then
        \<lparr> label = CONSUMABLE_PN_MISMATCH, confidence_level = LOW, action_path = RED,
          reasoning = ''Part number mismatch detected - Human Intervention Required'' \<rparr>
      else if has_vendor f \<and> has_kit f \<and> \<not> has_pn f then
        \<lparr> label = VENDOR_KIT_NO_PN, confidence_level = LOW, action_path = RED,
          reasoning = ''Vendor and kit mentioned but no PN - Human Intervention Required'' \<rparr>
      else if has_vendor f \<and> \<not> has_consumable f then
        \<lparr> label = VENDOR_NAME_ONLY, confidence_level = MEDIUM, action_path = AMBER,
          reasoning = ''Only vendor name mentioned - Auto with Flag'' \<rparr>
      else if has_kit f then
        \<lparr> label = PRE_ASSEMBLED_KIT, confidence_level = MEDIUM, action_path = AMBER,
          reasoning = ''Pre-assembled kit mentioned - Auto with Flag'' \<rparr>
      else
        \<lparr> label = NO_CONSUMABLE_MENTIONED, confidence_level = LOW, action_path = RED,
          reasoning = ''No clear consumable/jigs/tools mentioned - Human Intervention Required'' \<rparr>)"

text \<open>The \<open>except Exception\<close> branch.\<close>

definition manual_review :: classification where
  "manual_review =
     \<lparr> label = REQUIRES_MANUAL_REVIEW, confidence_level = LOW, action_path = RED,
       reasoning = ''Classification error - Manual review required'' \<rparr>"

text \<open>
  \<open>material_data.get\<close> exists on a dictionary only: on any other value the first line of the
  \<open>try\<close> block raises \<open>AttributeError\<close>, which the handler turns into the manual-review result.
\<close>

fun classify_material :: "pyval \<Rightarrow> classification" where
  "classify_material (PDict material_data) = apply_rules (flags_of material_data)"
| "classify_material _ = manual_review"

text \<open>
  The decision table of the specification (section 4.3), as data: guarded rules, read top
  down, the first rule whose guard holds gives the result.
\<close>

type_synonym triple = "QAClassificationLabel \<times> ConfidenceLevel \<times> ActionPathRAG"

definition rule_table :: "((flags \<Rightarrow> bool) \<times> triple) list" where
  "rule_table =
    [ (\<lambda>f. has_consumable f \<and> has_pn f \<and> has_qty f \<and> has_specs f,
         (CONSUMABLE_WITH_PN_SPEC_QTY, HIGH, GREEN)),
      (\<lambda>f. has_consumable f \<and> has_pn f \<and> has_qty f, (CONSUMABLE_WITH_PN_QTY, HIGH, GREEN)),
      (\<lambda>f. has_consumable f \<and> has_pn f \<and> \<not> has_qty f, (CONSUMABLE_NO_QTY, MEDIUM, AMBER)),
      (\<lambda>f. has_consumable f \<and> \<not> has_pn f, (CONSUMABLE_NO_PN, LOW, RED)),
      (\<lambda>f. obsolete_pn f, (CONSUMABLE_OBSOLETE_PN, LOW, RED)),
      (\<lambda>f. pn_mismatch f, (CONSUMABLE_PN_MISMATCH, LOW, RED)),
      (\<lambda>f. has_vendor f \<and> has_kit f \<and> \<not> has_pn f, (VENDOR_KIT_NO_PN, LOW, RED)),
      (\<lambda>f. has_vendor f \<and> \<not> has_consumable f, (VENDOR_NAME_ONLY, MEDIUM, AMBER)),
      (\<lambda>f. has_kit f, (PRE_ASSEMBLED_KIT, MEDIUM, AMBER)),
      (\<lambda>f. True, (NO_CONSUMABLE_MENTIONED, LOW, RED)) ]"

definition first_matching_rule :: "flags \<Rightarrow> triple option" where
  "first_matching_rule f = map_option snd (find (\<lambda>r. fst r f) rule_table)"

definition triple_of :: "classification \<Rightarrow> triple" where
  "triple_of c = (label c, confidence_level c, action_path c)"

definition is_dict :: "pyval \<Rightarrow> bool" where
  "is_dict v = (case v of PDict _ \<Rightarrow> True | _ \<Rightarrow> False)"


section \<open>Strings\<close>

text \<open>
  A string is a list of characters; a character stands for a code point below 256.
  \<open>str.isspace\<close> and the regular-expression class \<open>\s\<close> agree on these code points.
\<close>

definition newline :: char where
  "newline = CHR 0x0A"

definition is_space :: "char \<Rightarrow> bool" where
  "is_space c =
     (let n = (of_char c :: nat)
      in (9 \<le> n \<and> n \<le> 13) \<or> (28 \<le> n \<and> n \<le> 32) \<or> n = 133 \<or> n = 160)"

text \<open>\<open>str.strip()\<close>: leading and trailing whitespace removed.\<close>

definition strip :: "string \<Rightarrow> string" where
  "strip s = rev (dropWhile is_space (rev (dropWhile is_space s)))"

text \<open>\<open>str.lower()\<close> on the letters of this range.\<close>

definition lower_char :: "char \<Rightarrow> char" where
  "lower_char c =
     (let n = (of_char c :: nat)
      in if (65 \<le> n \<and> n \<le> 90) \<or> (192 \<le> n \<and> n \<le> 222 \<and> n \<noteq> 215)
         then char_of (n + 32) else c)"

definition lower :: "string \<Rightarrow> string" where
  "lower s = map lower_char s"

text \<open>
  \<open>s.split(sep)\<close> for a separator that is not empty: the text is scanned from the left,
  every occurrence of the separator closes the current piece, and the scan resumes behind
  it. (Python raises \<open>ValueError\<close> on an empty separator; the program only splits on the
  literals of one and two newlines.)
\<close>

function split_scan :: "string \<Rightarrow> string \<Rightarrow> string \<Rightarrow> string list" where
  "split_scan sep cur [] = [cur]"
| "split_scan sep cur (c # cs) =
     (if sep \<noteq> [] \<and> prefix sep (c # cs)
      then cur # split_scan sep [] (drop (length sep) (c # cs))
      else split_scan sep (cur @ [c]) cs)"
  by pat_completeness auto
termination
  by (relation "measure (\<lambda>(sep, cur, rest). length rest)") (auto simp: neq_Nil_conv)

definition py_split :: "string \<Rightarrow> string \<Rightarrow> string list" where
  "py_split sep s = split_scan sep [] s"

text \<open>\<open>sep.join(parts)\<close>.\<close>

fun py_join :: "string \<Rightarrow> string list \<Rightarrow> string" where
  "py_join sep [] = []"
| "py_join sep [x] = x"
| "py_join sep (x # y # ys) = x @ sep @ py_join sep (y # ys)"

text \<open>\<open>s.split()\<close>: the maximal runs of characters that are not whitespace.\<close>

fun words_scan :: "string \<Rightarrow> string \<Rightarrow> string list" where
  "words_scan cur [] = (if cur = [] then [] else [cur])"
| "words_scan cur (c # cs) =
     (if is_space c then (if cur = [] then words_scan [] cs else cur # words_scan [] cs)
      else words_scan (cur @ [c]) cs)"

definition py_words :: "string \<Rightarrow> string list" where
  "py_words s = words_scan [] s"

text \<open>\<open>a in b\<close> on strings.\<close>

definition py_in :: "string \<Rightarrow> string \<Rightarrow> bool" where
  "py_in a b = sublist a b"

section \<open>Chunker (\<open>_split_into_extraction_chunks\<close>, \<open>_split_large_chunk\<close>)\<close>

text \<open>
  Both functions run the same loop, once over the paragraphs with the blank-line separator
  and once over the lines with the newline separator. The loop state is the list of finished
  chunks, the pieces of the chunk being filled and the running length, which adds up the
  lengths of the pieces only. The last equation is the flush after the loop.
\<close>

fun greedy_pack ::
  "string \<Rightarrow> nat \<Rightarrow> string list \<Rightarrow> string list \<Rightarrow> string list \<Rightarrow> nat \<Rightarrow> string list" where
  "greedy_pack sep max_size [] chunks current_chunk current_length =
     (if current_chunk \<noteq> [] then chunks @ [py_join sep current_chunk] else chunks)"
| "greedy_pack sep max_size (section # sections) chunks current_chunk current_length =
     (if current_length + length section > max_size \<and> current_chunk \<noteq> []
      then greedy_pack sep max_size sections
             (chunks @ [py_join sep current_chunk]) [section] (length section)
      else greedy_pack sep max_size sections
             chunks (current_chunk @ [section]) (current_length + length section))"

definition split_large_chunk :: "string \<Rightarrow> nat \<Rightarrow> string list" where
  "split_large_chunk chunk max_size =
     (if length chunk \<le> max_size then [chunk]
      else greedy_pack [newline] max_size (py_split [newline] chunk) [] [] 0)"

definition paragraph_chunks :: "string \<Rightarrow> nat \<Rightarrow> string list" where
  "paragraph_chunks text max_chunk_size =
     greedy_pack [newline, newline] max_chunk_size (py_split [newline, newline] text) [] [] 0"

definition split_into_extraction_chunks :: "string \<Rightarrow> nat \<Rightarrow> string list" where
  "split_into_extraction_chunks text max_chunk_size =
     (if length text \<le> max_chunk_size then [text]
      else concat (map (\<lambda>chunk. if length chunk > max_chunk_size
                                then split_large_chunk chunk max_chunk_size
                                else [chunk])
                       (paragraph_chunks text max_chunk_size)))"

text \<open>
  The chunker returns a flat list. The grouping it goes through, one group of sub-chunks for
  each paragraph-level chunk, tells which separator stood between two neighbours: a newline
  inside a group, a blank line between groups.
\<close>

definition chunk_groups :: "string \<Rightarrow> nat \<Rightarrow> string list list" where
  "chunk_groups text max_chunk_size =
     (if length text \<le> max_chunk_size then [[text]]
      else map (\<lambda>chunk. if length chunk > max_chunk_size
                         then split_large_chunk chunk max_chunk_size
                         else [chunk])
               (paragraph_chunks text max_chunk_size))"

definition reassemble :: "string list list \<Rightarrow> string" where
  "reassemble groups = py_join [newline, newline] (map (py_join [newline]) groups)"


section \<open>Regular expressions (the subset of \<open>re\<close> the decoder uses)\<close>

text \<open>
  The patterns of the program are built from single characters and character classes, the
  anchors \<open>^\<close> and \<open>$\<close> (no \<open>MULTILINE\<close> flag is ever passed), concatenation, the greedy
  star and the lazy star. \<open>rmatch r s i\<close> lists the positions where a match of \<open>r\<close> that
  starts at position \<open>i\<close> of \<open>s\<close> can end, in the order in which a backtracking matcher
  tries them; the first one is the match that \<open>re\<close> reports.
\<close>

datatype regex =
    Eps
  | Sat "char \<Rightarrow> bool"
  | Bol
  | Eol
  | Seq regex regex
  | Star regex
  | LazyStar regex

text \<open>
  Iteration of a star whose body is matched by \<open>step\<close>. An iteration that consumes nothing
  is not repeated. Every iteration consumes a character, so \<open>length s\<close> rounds of fuel are
  never used up.
\<close>

fun star_greedy :: "(nat \<Rightarrow> nat list) \<Rightarrow> nat \<Rightarrow> nat \<Rightarrow> nat list" where
  "star_greedy step 0 i = [i]"
| "star_greedy step (Suc fuel) i =
     concat (map (\<lambda>j. if i < j then star_greedy step fuel j else []) (step i)) @ [i]"

fun star_lazy :: "(nat \<Rightarrow> nat list) \<Rightarrow> nat \<Rightarrow> nat \<Rightarrow> nat list" where
  "star_lazy step 0 i = [i]"
| "star_lazy step (Suc fuel) i =
     i # concat (map (\<lambda>j. if i < j then star_lazy step fuel j else []) (step i))"

primrec rmatch :: "regex \<Rightarrow> string \<Rightarrow> nat \<Rightarrow> nat list" where
  "rmatch Eps s = (\<lambda>i. [i])"
| "rmatch (Sat p) s = (\<lambda>i. if i < length s \<and> p (s ! i) then [Suc i] else [])"
| "rmatch Bol s = (\<lambda>i. if i = 0 then [i] else [])"
| "rmatch Eol s =
     (\<lambda>i. if i = length s \<or> (Suc i = length s \<and> s ! i = newline) then [i] else [])"
| "rmatch (Seq a b) s = (\<lambda>i. concat (map (rmatch b s) (rmatch a s i)))"
| "rmatch (Star r) s = star_greedy (rmatch r s) (length s)"
| "rmatch (LazyStar r) s = star_lazy (rmatch r s) (length s)"

definition Chr :: "char \<Rightarrow> regex" where
  "Chr c = Sat (\<lambda>x. x = c)"

definition seqs :: "regex list \<Rightarrow> regex" where
  "seqs rs = foldr Seq rs Eps"

definition lit :: "string \<Rightarrow> regex" where
  "lit s = seqs (map Chr s)"

text \<open>\<open>\s\<close>, the dot under \<open>re.DOTALL\<close>, and the class \<open>[^{}]\<close>.\<close>

definition Space :: regex where
  "Space = Sat is_space"

definition AnyChar :: regex where
  "AnyChar = Sat (\<lambda>c. True)"

definition NotBrace :: regex where
  "NotBrace = Sat (\<lambda>c. c \<noteq> CHR ''{'' \<and> c \<noteq> CHR ''}'')"

text \<open>
  The scan of \<open>re.finditer\<close>: the leftmost position with a match, the first match there,
  then on behind it. After a match of length zero the scan moves one character on (no
  pattern of this program matches the empty string).
\<close>

function finditer :: "regex \<Rightarrow> string \<Rightarrow> nat \<Rightarrow> (nat \<times> nat) list" where
  "finditer r s i =
     (if length s < i then []
      else (case rmatch r s i of
              [] \<Rightarrow> finditer r s (Suc i)
            | j # _ \<Rightarrow> (i, j) # finditer r s (if i < j then j else Suc i)))"
  by pat_completeness auto
termination
  by (relation "measure (\<lambda>(r, s, i). Suc (length s) - i)") auto

declare finditer.simps [simp del]

text \<open>\<open>re.findall\<close> for a pattern without capturing groups: the matched substrings.\<close>

definition re_findall :: "regex \<Rightarrow> string \<Rightarrow> string list" where
  "re_findall r s = map (\<lambda>(i, j). take (j - i) (drop i s)) (finditer r s 0)"

text \<open>\<open>re.sub\<close> with a constant replacement: \<open>pos\<close> is the end of the previous match.\<close>

fun sub_build :: "string \<Rightarrow> string \<Rightarrow> nat \<Rightarrow> (nat \<times> nat) list \<Rightarrow> string" where
  "sub_build repl s pos [] = drop pos s"
| "sub_build repl s pos ((i, j) # ms) =
     take (i - pos) (drop pos s) @ repl @ sub_build repl s j ms"

definition re_sub :: "regex \<Rightarrow> string \<Rightarrow> string \<Rightarrow> string" where
  "re_sub r repl s = sub_build repl s 0 (finditer r s 0)"

section \<open>Resilient record decoder (\<open>_parse_json_response\<close>)\<close>

text \<open>The five patterns, character by character as the source writes them.\<close>

definition fence_open_pattern :: regex where
  \<open>fence_open_pattern = seqs [Bol, lit ''```json'']\<close>

definition fence_close_pattern :: regex where
  \<open>fence_close_pattern = seqs [Star Space, lit ''```'', Eol]\<close>

definition array_pattern :: regex where
  \<open>array_pattern =
     seqs [Eol, Eol, Star Space, Chr CHR ''{'', LazyStar AnyChar, Chr CHR ''}'', Star Space,
           Star (seqs [Chr CHR '','', Star Space, Chr CHR ''{'', LazyStar AnyChar,
                       Chr CHR ''}'', Star Space]),
           Eol, Eol]\<close>

definition object_pattern :: regex where
  \<open>object_pattern =
     seqs [Chr CHR ''{'', Star NotBrace,
           Star (seqs [Chr CHR ''{'', Star NotBrace, Chr CHR ''}'', Star NotBrace]),
           Chr CHR ''}'']\<close>

definition trailing_comma_brace :: regex where
  \<open>trailing_comma_brace = seqs [Chr CHR '','', Star Space, Chr CHR ''}'']\<close>

definition trailing_comma_bracket :: regex where
  \<open>trailing_comma_bracket = seqs [Chr CHR '','', Star Space, Chr CHR '']'']\<close>

text \<open>
  \<open>json.loads\<close> belongs to the standard library: it is a parameter \<open>loads\<close> of the decoder,
  which either raises or returns a value. The handlers of the strategies catch
  \<open>json.JSONDecodeError\<close> only; the outermost handler catches every \<open>Exception\<close>.
\<close>

datatype exn = JSONDecodeError | OtherException string

datatype 'a outcome = Returned 'a | Raised exn | FellThrough

text \<open>Strategy 1: direct parse; a list is returned as it is, a dictionary as a one-element list.\<close>

definition strategy1 :: "(string \<Rightarrow> exn + pyval) \<Rightarrow> string \<Rightarrow> pyval list outcome" where
  "strategy1 loads cleaned =
     (case loads cleaned of
        Inr (PList xs) \<Rightarrow> Returned xs
      | Inr (PDict d) \<Rightarrow> Returned [PDict d]
      | Inr _ \<Rightarrow> FellThrough
      | Inl JSONDecodeError \<Rightarrow> FellThrough
      | Inl e \<Rightarrow> Raised e)"

text \<open>Strategy 2: the loop over \<open>array_matches\<close>.\<close>

fun strategy2_loop :: "(string \<Rightarrow> exn + pyval) \<Rightarrow> string list \<Rightarrow> pyval list outcome" where
  "strategy2_loop loads [] = FellThrough"
| "strategy2_loop loads (match # matches) =
     (case loads match of
        Inr (PList xs) \<Rightarrow> if 0 < length xs then Returned xs else strategy2_loop loads matches
      | Inr _ \<Rightarrow> strategy2_loop loads matches
      | Inl JSONDecodeError \<Rightarrow> strategy2_loop loads matches
      | Inl e \<Rightarrow> Raised e)"

definition strategy2 :: "(string \<Rightarrow> exn + pyval) \<Rightarrow> string \<Rightarrow> pyval list outcome" where
  "strategy2 loads cleaned = strategy2_loop loads (re_findall array_pattern cleaned)"

text \<open>Strategy 3: the loop over \<open>object_matches\<close> collects the dictionaries with a truthy name.\<close>

fun strategy3_loop ::
  "(string \<Rightarrow> exn + pyval) \<Rightarrow> string list \<Rightarrow> pyval list \<Rightarrow> exn + pyval list" where
  "strategy3_loop loads [] objects = Inr objects"
| "strategy3_loop loads (match # matches) objects =
     (case loads match of
        Inr (PDict obj) \<Rightarrow>
          if truthy (py_get obj ''name'') then strategy3_loop loads matches (objects @ [PDict obj])
          else strategy3_loop loads matches objects
      | Inr _ \<Rightarrow> strategy3_loop loads matches objects
      | Inl JSONDecodeError \<Rightarrow> strategy3_loop loads matches objects
      | Inl e \<Rightarrow> Inl e)"

definition strategy3 :: "(string \<Rightarrow> exn + pyval) \<Rightarrow> string \<Rightarrow> pyval list outcome" where
  "strategy3 loads cleaned =
     (case strategy3_loop loads (re_findall object_pattern cleaned) [] of
        Inl e \<Rightarrow> Raised e
      | Inr objects \<Rightarrow> if objects \<noteq> [] then Returned objects else FellThrough)"

text \<open>Strategy 4: trailing commas removed, then a last direct parse; a list only.\<close>

definition strategy4 :: "(string \<Rightarrow> exn + pyval) \<Rightarrow> string \<Rightarrow> pyval list outcome" where
  "strategy4 loads cleaned =
     (let cleaned = re_sub trailing_comma_brace ''}'' cleaned;
          cleaned = re_sub trailing_comma_bracket '']'' cleaned
      in case loads cleaned of
           Inr (PList xs) \<Rightarrow> Returned xs
         | Inr _ \<Rightarrow> FellThrough
         | Inl JSONDecodeError \<Rightarrow> FellThrough
         | Inl e \<Rightarrow> Raised e)"

definition clean_response :: "string \<Rightarrow> string" where
  "clean_response response =
     (let cleaned = strip response;
          cleaned = re_sub fence_open_pattern [] cleaned;
          cleaned = re_sub fence_close_pattern [] cleaned
      in strip cleaned)"

text \<open>A strategy that falls through hands over to the next one.\<close>

definition or_else :: "'a outcome \<Rightarrow> 'a outcome \<Rightarrow> 'a outcome" where
  "or_else a b = (case a of FellThrough \<Rightarrow> b | _ \<Rightarrow> a)"

definition parse_strategies :: "(string \<Rightarrow> exn + pyval) \<Rightarrow> string \<Rightarrow> pyval list outcome" where
  "parse_strategies loads response =
     (let cleaned = clean_response response
      in or_else (strategy1 loads cleaned)
           (or_else (strategy2 loads cleaned)
              (or_else (strategy3 loads cleaned) (strategy4 loads cleaned))))"

text \<open>
  The whole function: the result is \<open>Inr\<close> of the returned list, and \<open>Inl\<close> would be an
  exception leaving the function. The outer handler and the last line both return \<open>[]\<close>.
\<close>

definition parse_json_response :: "(string \<Rightarrow> exn + pyval) \<Rightarrow> string \<Rightarrow> exn + pyval list" where
  "parse_json_response loads response =
     (case parse_strategies loads response of
        Returned data \<Rightarrow> Inr data
      | Raised e \<Rightarrow> Inr []
      | FellThrough \<Rightarrow> Inr [])"


section \<open>Extracted materials (\<open>schemas.py\<close>, \<open>ExtractedMaterial\<close>)\<close>

record ExtractedMaterial =
  name :: string
  qa_material_name :: string
  category :: string
  specifications :: pydict
  item_context :: string
  confidence_score :: real
  source_section :: string
  qa_excerpt :: "string option"
  qc_process_step :: "string option"
  consumable_jigs_tools :: bool
  name_mismatch :: bool
  part_number :: "string option"
  quantity :: "real option"
  unit_of_measure :: "string option"
  vendor_name :: "string option"
  kit_available :: bool
  ai_engine_processing :: string
  confidence_level_value :: ConfidenceLevel
  action_path_rag :: ActionPathRAG
  classification_label :: QAClassificationLabel
  classification_reasoning :: string

text \<open>
  The three items of \<open>_create_demo_materials_chunk_enhanced\<close>. The fields the constructor
  calls leave out take the defaults of the schema.
\<close>

definition demo_material ::
  "string \<Rightarrow> string \<Rightarrow> pydict \<Rightarrow> string \<Rightarrow> real \<Rightarrow> string \<Rightarrow> string \<Rightarrow> string \<Rightarrow> string
     \<Rightarrow> real \<Rightarrow> string \<Rightarrow> ExtractedMaterial" where
  "demo_material nm cat specs ctx score section excerpt step pn qty unit =
     \<lparr> name = nm, qa_material_name = nm, category = cat, specifications = specs,
       item_context = ctx, confidence_score = score, source_section = section,
       qa_excerpt = Some excerpt, qc_process_step = Some step, consumable_jigs_tools = True,
       name_mismatch = False, part_number = Some pn, quantity = Some qty,
       unit_of_measure = Some unit, vendor_name = None, kit_available = False,
       ai_engine_processing = ''Demo mode - AI classification'',
       confidence_level_value = HIGH, action_path_rag = GREEN,
       classification_label = CONSUMABLE_WITH_PN_QTY,
       classification_reasoning = ''Demo: Consumable with PN and quantity - Auto-Register'' \<rparr>"

definition create_demo_materials_chunk_enhanced :: "ExtractedMaterial list" where
  "create_demo_materials_chunk_enhanced =
     [ demo_material ''M6x20mm Hex Bolt'' ''fasteners''
         [(''size'', PStr ''M6x20mm''), (''type'', PStr ''hex bolt''),
          (''material'', PStr ''stainless steel'')]
         (''Use M6'' @ [CHR 0xD7] @ ''20 hex bolts for chassis mounting'') (95 / 100)
         ''Demo content - Step 2: Chassis Assembly''
         (''M6'' @ [CHR 0xD7] @ ''20mm bolts to secure the chassis'')
         ''Assembly Step 2'' ''BOLT-M6-20-SS'' 4 ''pieces'',
       demo_material ''Industrial Adhesive Tape 25mm'' ''adhesives''
         [(''width'', PStr ''25mm''), (''type'', PStr ''double-sided''),
          (''length'', PStr ''50mm'')]
         ''Use adhesive tape to secure cable harnesses'' (88 / 100)
         ''Demo content - Step 3: Wiring Work''
         ''adhesive tape to secure cable harnesses''
         ''Wiring Step 3'' ''TAPE-ADH-25'' 2 ''rolls'',
       demo_material ''Silicone Sealing Compound'' ''seals''
         [(''type'', PStr ''silicone''), (''application'', PStr ''joint sealing'')]
         ''Apply sealing compound to joint areas'' (85 / 100)
         ''Demo content - Step 4: Sealing Process''
         ''silicone sealing material to joint areas''
         ''Sealing Step 4'' ''SEAL-SIL-01'' 1 ''tube'' ]"

section \<open>Deduplication (\<open>_deduplicate_materials\<close>)\<close>

definition name_key :: "ExtractedMaterial \<Rightarrow> string" where
  "name_key material = strip (lower (name material))"

definition part_key :: "ExtractedMaterial \<Rightarrow> string" where
  "part_key material =
     strip (lower (case part_number material of None \<Rightarrow> [] | Some pn \<Rightarrow> pn))"

definition unique_key :: "ExtractedMaterial \<Rightarrow> string" where
  "unique_key material = name_key material @ ''|'' @ part_key material"

text \<open>
  The loop, with its two variables. The fields read are a \<open>str\<close> and an \<open>Optional[str]\<close>
  of a validated model, so the handler inside the loop has nothing to catch.
\<close>

fun dedup_loop ::
  "ExtractedMaterial list \<Rightarrow> string set \<Rightarrow> ExtractedMaterial list \<Rightarrow> ExtractedMaterial list" where
  "dedup_loop [] seen_keys unique_materials = unique_materials"
| "dedup_loop (material # materials) seen_keys unique_materials =
     (if unique_key material \<notin> seen_keys
      then dedup_loop materials (insert (unique_key material) seen_keys)
             (unique_materials @ [material])
      else dedup_loop materials seen_keys unique_materials)"

definition deduplicate_materials :: "ExtractedMaterial list \<Rightarrow> ExtractedMaterial list" where
  "deduplicate_materials materials =
     (if materials = [] then [] else dedup_loop materials {} [])"

section \<open>Statistics of a run\<close>

record confidence_dist =
  high :: nat
  medium :: nat
  low :: nat

fun confidence_loop :: "ExtractedMaterial list \<Rightarrow> confidence_dist \<Rightarrow> confidence_dist" where
  "confidence_loop [] d = d"
| "confidence_loop (m # ms) d =
     (let score = confidence_score m
      in if score \<ge> 8 / 10 then confidence_loop ms (d\<lparr>high := Suc (high d)\<rparr>)
         else if score \<ge> 6 / 10 then confidence_loop ms (d\<lparr>medium := Suc (medium d)\<rparr>)
         else confidence_loop ms (d\<lparr>low := Suc (low d)\<rparr>))"

definition calculate_confidence_distribution :: "ExtractedMaterial list \<Rightarrow> confidence_dist" where
  "calculate_confidence_distribution materials =
     confidence_loop materials \<lparr> high = 0, medium = 0, low = 0 \<rparr>"

record qa_summary =
  summary_total_materials :: nat
  green_materials :: nat
  amber_materials :: nat
  red_materials :: nat
  classification_breakdown :: "(string \<times> nat) list"

fun label_value :: "QAClassificationLabel \<Rightarrow> nat" where
  "label_value CONSUMABLE_WITH_PN_SPEC_QTY = 1"
| "label_value CONSUMABLE_WITH_PN_QTY = 2"
| "label_value CONSUMABLE_NO_QTY = 3"
| "label_value CONSUMABLE_NO_PN = 4"
| "label_value CONSUMABLE_OBSOLETE_PN = 5"
| "label_value CONSUMABLE_PN_MISMATCH = 6"
| "label_value VENDOR_KIT_NO_PN = 7"
| "label_value VENDOR_NAME_ONLY = 8"
| "label_value PRE_ASSEMBLED_KIT = 9"
| "label_value NO_CONSUMABLE_MENTIONED = 10"
| "label_value JIGS_TOOLS_IDENTIFIED = 11"
| "label_value PARTIAL_INFO_AVAILABLE = 12"
| "label_value REQUIRES_MANUAL_REVIEW = 13"

definition digit_char :: "nat \<Rightarrow> char" where
  "digit_char d = char_of (48 + d)"

definition label_name :: "QAClassificationLabel \<Rightarrow> string" where
  "label_name l =
     (let v = label_value l
      in ''Label '' @ (if v < 10 then [digit_char v] else [digit_char (v div 10), digit_char (v mod 10)]))"

fun breakdown_loop :: "ExtractedMaterial list \<Rightarrow> (string \<times> nat) list \<Rightarrow> (string \<times> nat) list" where
  "breakdown_loop [] breakdown = breakdown"
| "breakdown_loop (material # materials) breakdown =
     (let label_name = label_name (classification_label material)
      in breakdown_loop materials
           (AList.update label_name
              ((case map_of breakdown label_name of None \<Rightarrow> 0 | Some n \<Rightarrow> n) + 1) breakdown))"

definition generate_classification_summary :: "ExtractedMaterial list \<Rightarrow> qa_summary" where
  "generate_classification_summary materials =
     (if materials = [] then
        \<lparr> summary_total_materials = 0, green_materials = 0, amber_materials = 0,
          red_materials = 0, classification_breakdown = [] \<rparr>
      else
        \<lparr> summary_total_materials = length materials,
          green_materials = length (filter (\<lambda>m. action_path_rag m = GREEN) materials),
          amber_materials = length (filter (\<lambda>m. action_path_rag m = AMBER) materials),
          red_materials = length (filter (\<lambda>m. action_path_rag m = RED) materials),
          classification_breakdown = breakdown_loop materials [] \<rparr>)"

record stats =
  extractions_performed :: nat
  materials_extracted :: nat
  stats_chunks_processed :: nat
  errors :: nat

section \<open>Extraction of one chunk (\<open>_extract_from_chunk_enhanced\<close>)\<close>

text \<open>
  The collaborators are parameters: whether the generation client is available, the
  generation call \<open>generate\<close> (given the data the prompt is built from: categories, chunk
  text, chunk index and chunk count), \<open>json.loads\<close>, and \<open>create\<close>, the construction of a
  validated \<open>ExtractedMaterial\<close> from a decoded record, which can raise.
\<close>

fun create_loop ::
  "(pyval \<Rightarrow> string \<Rightarrow> exn + ExtractedMaterial) \<Rightarrow> pyval list \<Rightarrow> string
     \<Rightarrow> ExtractedMaterial list \<Rightarrow> ExtractedMaterial list" where
  "create_loop create [] text materials = materials"
| "create_loop create (material_data # rest) text materials =
     (case create material_data text of
        Inr material \<Rightarrow> create_loop create rest text (materials @ [material])
      | Inl ex \<Rightarrow> create_loop create rest text materials)"

definition extract_from_chunk_enhanced ::
  "bool \<Rightarrow> (string list \<Rightarrow> string \<Rightarrow> nat \<Rightarrow> nat \<Rightarrow> exn + string) \<Rightarrow> (string \<Rightarrow> exn + pyval)
     \<Rightarrow> (pyval \<Rightarrow> string \<Rightarrow> exn + ExtractedMaterial)
     \<Rightarrow> string \<Rightarrow> string list \<Rightarrow> nat \<Rightarrow> nat \<Rightarrow> exn + ExtractedMaterial list" where
  "extract_from_chunk_enhanced available generate loads create text categories chunk_idx
       total_chunks =
     (if \<not> available then Inr create_demo_materials_chunk_enhanced
      else (case generate categories text chunk_idx total_chunks of
              Inl e \<Rightarrow> Inr []
            | Inr response \<Rightarrow>
                (case parse_json_response loads response of
                   Inl e \<Rightarrow> Inr []
                 | Inr materials_data \<Rightarrow>
                     if materials_data = [] then Inr []
                     else Inr (create_loop create materials_data text []))))"

section \<open>Extraction coordinator (\<open>process_translated_content\<close>)\<close>

record extraction_result =
  success :: bool
  materials :: "ExtractedMaterial list"
  total_materials :: nat
  chunks_processed :: nat
  successful_chunks :: nat
  focus_categories :: "string list"
  confidence_distribution :: confidence_dist
  qa_classification_summary :: qa_summary
  processing_stats :: stats
  error :: "string option"
  demo_mode :: "bool option"

definition default_focus_categories :: "string list" where
  "default_focus_categories =
     [''fasteners'', ''adhesives'', ''seals'', ''gaskets'', ''electrical'', ''connectors'',
      ''hardware'', ''consumables'', ''jigs'', ''tools'']"

text \<open>
  The loop over the gathered chunk results: an exception object is skipped, a list that is
  not empty is appended and counted.
\<close>

fun combine_loop ::
  "(exn + ExtractedMaterial list) list \<Rightarrow> ExtractedMaterial list \<Rightarrow> nat
     \<Rightarrow> ExtractedMaterial list \<times> nat" where
  "combine_loop [] all_materials successful = (all_materials, successful)"
| "combine_loop (chunk_result # rest) all_materials successful =
     (case chunk_result of
        Inl e \<Rightarrow> combine_loop rest all_materials successful
      | Inr ms \<Rightarrow>
          if ms \<noteq> [] then combine_loop rest (all_materials @ ms) (Suc successful)
          else combine_loop rest all_materials successful)"

text \<open>
  The coordinator takes the statistics of the agent and returns them updated next to the
  mapping. A key that the returned dictionary does not have is \<open>None\<close> in the record. The
  body of the \<open>try\<close> block takes the length of the content first: a content that is not a
  string (\<open>None\<close> here) raises there, and the handler builds the second mapping.
\<close>

definition process_translated_content ::
  "(string \<Rightarrow> string list \<Rightarrow> nat \<Rightarrow> nat \<Rightarrow> exn + ExtractedMaterial list) \<Rightarrow> stats
     \<Rightarrow> string option \<Rightarrow> string list \<Rightarrow> extraction_result \<times> stats" where
  "process_translated_content extract st translated_content categories =
     (let focus = (if categories = [] then default_focus_categories else categories)
      in case translated_content of
           None \<Rightarrow>
             (let st' = st\<lparr>errors := errors st + 1\<rparr>;
                  demo_materials = create_demo_materials_chunk_enhanced
              in (\<lparr> success = True, materials = demo_materials,
                    total_materials = length demo_materials, chunks_processed = 1,
                    successful_chunks = 0, focus_categories = focus,
                    confidence_distribution = calculate_confidence_distribution demo_materials,
                    qa_classification_summary = generate_classification_summary demo_materials,
                    processing_stats = st',
                    error = Some ''object of type 'NoneType' has no len()'',
                    demo_mode = Some True \<rparr>, st'))
         | Some text \<Rightarrow>
             (let chunks = split_into_extraction_chunks text 1500;
                  chunk_results =
                    map (\<lambda>(i, chunk). extract chunk focus (i + 1) (length chunks))
                        (enumerate 0 chunks);
                  (combined, successful) = combine_loop chunk_results [] 0;
                  all_materials =
                    (if combined = [] then create_demo_materials_chunk_enhanced else combined);
                  unique_materials = deduplicate_materials all_materials;
                  classification_summary = generate_classification_summary unique_materials;
                  st' = st\<lparr> extractions_performed := extractions_performed st + 1,
                           materials_extracted := materials_extracted st + length unique_materials,
                           stats_chunks_processed := stats_chunks_processed st + length chunks \<rparr>
              in (\<lparr> success = True, materials = unique_materials,
                    total_materials = length unique_materials,
                    chunks_processed = length chunks, successful_chunks = successful,
                    focus_categories = focus,
                    confidence_distribution = calculate_confidence_distribution unique_materials,
                    qa_classification_summary = classification_summary,
                    processing_stats = st', error = None, demo_mode = None \<rparr>, st')))"


section \<open>Cross-source matcher (\<open>item_matcher.py\<close>)\<close>

text \<open>
  A row of the supplier table (every field a string, as the supplier agent builds it), a
  scored supplier candidate, and a record of the knowledge store. A field of a knowledge
  record that may be missing is an option, read with the default of the \<open>get\<close> call.
\<close>

record supplier_item =
  si_description :: string
  si_part_number :: string
  si_supplier_name :: string
  si_category :: string

record supplier_match =
  sm_supplier_description :: string
  sm_supplier_part_number :: string
  sm_confidence_score :: real
  sm_match_type :: string
  sm_supplier_data :: supplier_item

record kb_match =
  kb_id :: "nat option"
  kb_material_name :: "string option"
  kb_part_number :: "string option"
  kb_confidence_score :: "real option"
  kb_match_type :: "string option"

text \<open>The dictionary that \<open>_select_best_match\<close> returns; the empty dictionary is \<open>None\<close>.\<close>

record best_match =
  bm_id :: "nat option"
  bm_supplier_description :: string
  bm_supplier_part_number :: string
  bm_confidence_score :: real
  bm_match_type :: string
  bm_match_source :: string
  bm_supplier_data :: "supplier_item option"

definition get_or :: "'a option \<Rightarrow> 'a \<Rightarrow> 'a" where
  "get_or v dflt = (case v of None \<Rightarrow> dflt | Some x \<Rightarrow> x)"

subsection \<open>\<open>_find_supplier_matches\<close>\<close>

definition attribute_error :: exn where
  "attribute_error = OtherException ''AttributeError''"

definition item_material_name :: "pydict \<Rightarrow> pyval" where
  "item_material_name item =
     py_get_or item ''qa_material_name'' (py_get_or item ''name'' (PStr []))"

text \<open>
  The score of a word overlap is computed in binary floating point,
  \<open>len(common_words) / len(material_words | supplier_words) * 0.9\<close>, and its rounding is
  not modelled: the parameter \<open>overlap_score\<close> gives the value of that expression for the
  two cardinalities. (At 7 common words of 9 the double is just above 0.7, the exact
  product is 0.7.)
\<close>

definition name_similarity :: "(nat \<Rightarrow> nat \<Rightarrow> real) \<Rightarrow> string \<Rightarrow> string \<Rightarrow> real" where
  "name_similarity overlap_score material_name supplier_desc =
     (if material_name \<noteq> [] \<and> supplier_desc \<noteq> [] then
        (let material_words = set (py_words material_name);
             supplier_words = set (py_words supplier_desc);
             common_words = material_words \<inter> supplier_words
         in if common_words \<noteq> {} then
              min (85 / 100)
                  (overlap_score (card common_words) (card (material_words \<union> supplier_words)))
            else 0)
      else 0)"

text \<open>
  The confidence of one row. The two part-number tests call \<open>strip\<close> on the item's part
  number once it and the supplier's are truthy; on a value that is not a string this raises.
\<close>

definition row_confidence ::
  "(nat \<Rightarrow> nat \<Rightarrow> real) \<Rightarrow> string \<Rightarrow> pyval \<Rightarrow> supplier_item \<Rightarrow> exn + real" where
  "row_confidence overlap_score material_name item_part_number supplier_item =
     (let supplier_desc = lower (si_description supplier_item);
          supplier_part = si_part_number supplier_item
      in if truthy item_part_number \<and> supplier_part \<noteq> [] then
           (case item_part_number of
              PStr pn \<Rightarrow>
                if strip pn = strip supplier_part then Inr (95 / 100)
                else if py_in (strip pn) (strip supplier_part)
                        \<or> py_in (strip supplier_part) (strip pn) then Inr (8 / 10)
                else Inr (name_similarity overlap_score material_name supplier_desc)
            | _ \<Rightarrow> Inl attribute_error)
         else Inr (name_similarity overlap_score material_name supplier_desc))"

fun supplier_loop ::
  "(nat \<Rightarrow> nat \<Rightarrow> real) \<Rightarrow> string \<Rightarrow> pyval \<Rightarrow> supplier_item list \<Rightarrow> supplier_match list \<Rightarrow> exn + supplier_match list" where
  "supplier_loop overlap_score material_name item_part_number [] matches = Inr matches"
| "supplier_loop overlap_score material_name item_part_number (supplier_item # rest) matches =
     (case row_confidence overlap_score material_name item_part_number supplier_item of
        Inl e \<Rightarrow> Inl e
      | Inr confidence \<Rightarrow>
          if confidence > 3 / 10 then
            supplier_loop overlap_score material_name item_part_number rest
              (matches @
                [\<lparr> sm_supplier_description = si_description supplier_item,
                   sm_supplier_part_number = si_part_number supplier_item,
                   sm_confidence_score = confidence,
                   sm_match_type =
                     (if confidence > 85 / 100 then ''part_number'' else ''description''),
                   sm_supplier_data = supplier_item \<rparr>])
          else supplier_loop overlap_score material_name item_part_number rest matches)"

text \<open>\<open>sorted(..., reverse=True)\<close> is stable: equal scores keep the order of the rows.\<close>

definition find_supplier_matches ::
  "(nat \<Rightarrow> nat \<Rightarrow> real) \<Rightarrow> pydict \<Rightarrow> supplier_item list \<Rightarrow> exn + supplier_match list" where
  "find_supplier_matches overlap_score item supplier_bom =
     (case item_material_name item of
        PStr nm \<Rightarrow>
          (case supplier_loop overlap_score (lower nm) (py_get_or item ''part_number'' (PStr []))
                  supplier_bom []
           of Inl e \<Rightarrow> Inl e
            | Inr matches \<Rightarrow> Inr (sort_key (\<lambda>m. - sm_confidence_score m) matches))
      | _ \<Rightarrow> Inl attribute_error)"

subsection \<open>\<open>_select_best_match\<close>\<close>

text \<open>The first loop: the first exact knowledge record with a score above 0.8, if any.\<close>

fun exact_loop :: "kb_match list \<Rightarrow> kb_match option" where
  "exact_loop [] = None"
| "exact_loop (kb_match # rest) =
     (if kb_match_type kb_match = Some ''exact''
         \<and> get_or (kb_confidence_score kb_match) 0 > 8 / 10
      then Some kb_match else exact_loop rest)"

text \<open>\<open>max(xs, key=...)\<close> keeps the first of the largest elements.\<close>

fun max_by :: "('a \<Rightarrow> real) \<Rightarrow> 'a \<Rightarrow> 'a list \<Rightarrow> 'a" where
  "max_by key best [] = best"
| "max_by key best (x # xs) = max_by key (if key best < key x then x else best) xs"

definition from_supplier :: "supplier_match \<Rightarrow> string \<Rightarrow> best_match" where
  "from_supplier best_supplier source =
     \<lparr> bm_id = None,
       bm_supplier_description = sm_supplier_description best_supplier,
       bm_supplier_part_number = sm_supplier_part_number best_supplier,
       bm_confidence_score = sm_confidence_score best_supplier,
       bm_match_type = sm_match_type best_supplier,
       bm_match_source = source,
       bm_supplier_data = Some (sm_supplier_data best_supplier) \<rparr>"

definition from_kb :: "kb_match \<Rightarrow> real \<Rightarrow> string \<Rightarrow> best_match" where
  "from_kb kb_match score match_type =
     \<lparr> bm_id = kb_id kb_match,
       bm_supplier_description = get_or (kb_material_name kb_match) [],
       bm_supplier_part_number = get_or (kb_part_number kb_match) [],
       bm_confidence_score = score,
       bm_match_type = match_type,
       bm_match_source = ''knowledge_base'',
       bm_supplier_data = None \<rparr>"

definition select_best_match ::
  "pydict \<Rightarrow> kb_match list \<Rightarrow> supplier_match list \<Rightarrow> best_match option" where
  "select_best_match item kb_matches supplier_matches =
     (case exact_loop kb_matches of
        Some kb_match \<Rightarrow>
          Some (from_kb kb_match (min (95 / 100) (get_or (kb_confidence_score kb_match) (9 / 10)))
                  ''exact'')
      | None \<Rightarrow>
          (case (case supplier_matches of
                   best_supplier # _ \<Rightarrow>
                     if sm_confidence_score best_supplier > 7 / 10
                     then Some (from_supplier best_supplier ''supplier_bom'') else None
                 | [] \<Rightarrow> None) of
             Some r \<Rightarrow> Some r
           | None \<Rightarrow>
               (case (case kb_matches of
                        k # ks \<Rightarrow>
                          (let best_kb = max_by (\<lambda>x. get_or (kb_confidence_score x) 0) k ks
                           in if get_or (kb_confidence_score best_kb) 0 > 5 / 10
                              then Some (from_kb best_kb
                                           (max (6 / 10) (get_or (kb_confidence_score best_kb) (6 / 10)))
                                           ''fuzzy'')
                              else None)
                      | [] \<Rightarrow> None) of
                  Some r \<Rightarrow> Some r
                | None \<Rightarrow>
                    (case supplier_matches of
                       best_supplier # _ \<Rightarrow>
                         Some (from_supplier best_supplier ''supplier_bom_low_confidence'')
                     | [] \<Rightarrow> None))))"

subsection \<open>\<open>_determine_match_source\<close> and \<open>_generate_match_reasoning\<close>\<close>

definition determine_match_source :: "kb_match list \<Rightarrow> supplier_match list \<Rightarrow> string" where
  "determine_match_source kb_matches supplier_matches =
     (if kb_matches \<noteq> [] \<and> supplier_matches \<noteq> [] then ''hybrid''
      else if kb_matches \<noteq> [] then ''knowledge_base''
      else if supplier_matches \<noteq> [] then ''supplier_bom''
      else ''no_match'')"

text \<open>\<open>pct\<close> is the format \<open>{confidence:.1%}\<close> of the standard library.\<close>

definition generate_match_reasoning ::
  "(real \<Rightarrow> string) \<Rightarrow> kb_match list \<Rightarrow> supplier_match list \<Rightarrow> best_match option \<Rightarrow> string" where
  "generate_match_reasoning pct kb_matches supplier_matches best_match =
     (case best_match of
        None \<Rightarrow>
          if kb_matches = [] \<and> supplier_matches = []
          then ''No matches found in knowledge base or supplier BOM''
          else ''Matches found but confidence scores below minimum threshold''
      | Some bm \<Rightarrow>
          (let match_source = bm_match_source bm;
               confidence = pct (bm_confidence_score bm);
               match_type = bm_match_type bm
           in if match_source = ''knowledge_base'' then
                (if match_type = ''exact''
                 then ''Exact match found in knowledge base from previous workflow (confidence: ''
                        @ confidence @ '')''
                 else ''Similar item found in knowledge base based on name similarity (confidence: ''
                        @ confidence @ '')'')
              else if match_source = ''supplier_bom'' then
                (if match_type = ''part_number''
                 then ''Part number match found in current supplier BOM (confidence: ''
                        @ confidence @ '')''
                 else ''Description match found in current supplier BOM (confidence: ''
                        @ confidence @ '')'')
              else if match_source = ''supplier_bom_low_confidence'' then
                ''Low confidence match found in supplier BOM - requires review (confidence: ''
                  @ confidence @ '')''
              else if match_source = ''hybrid'' then
                ''Match verified through both knowledge base and supplier BOM (confidence: ''
                  @ confidence @ '')''
              else ''Match found with '' @ confidence @ '' confidence via '' @ match_source))"

subsection \<open>\<open>match_items_with_knowledge_base\<close>\<close>

text \<open>
  The dictionary literal of the result: the item's entries first, then each listed key
  stored in turn, which replaces the value of a key already there and appends a new key.
\<close>

definition dict_with :: "pydict \<Rightarrow> (string \<times> pyval) list \<Rightarrow> pydict" where
  "dict_with d kvs = foldl (\<lambda>acc (k, v). AList.update k v acc) d kvs"

text \<open>
  The store's \<open>find_similar_items\<close>, the floating-point overlap score, the percent format
  and the clock are parameters; a failing query counts as no knowledge records. An exception
  of \<open>_find_supplier_matches\<close> is not caught. \<open>timestamp\<close> is the reading of the clock
  taken for this item.
\<close>

definition match_one ::
  "(pyval \<Rightarrow> pyval \<Rightarrow> exn + kb_match list) \<Rightarrow> (nat \<Rightarrow> nat \<Rightarrow> real) \<Rightarrow> (real \<Rightarrow> string) \<Rightarrow> string
     \<Rightarrow> string \<Rightarrow> supplier_item list \<Rightarrow> pydict \<Rightarrow> exn + pydict" where
  "match_one find_similar_items overlap_score pct timestamp workflow_id supplier_bom item =
     (let material_name = item_material_name item;
          part_number = py_get_or item ''part_number'' (PStr []);
          kb_matches = (case find_similar_items material_name part_number of
                          Inl e \<Rightarrow> [] | Inr ms \<Rightarrow> ms)
      in case find_supplier_matches overlap_score item supplier_bom of
           Inl e \<Rightarrow> Inl e
         | Inr supplier_matches \<Rightarrow>
             (let best_match = select_best_match item kb_matches supplier_matches;
                  reasoning = generate_match_reasoning pct kb_matches supplier_matches best_match
              in Inr (dict_with item
                   [ (''qa_material_name'', material_name),
                     (''knowledge_base_matches'', PNum (real (length kb_matches))),
                     (''supplier_matches'', PNum (real (length supplier_matches))),
                     (''has_previous_match'', PBool (length kb_matches > 0)),
                     (''match_source'', PStr (determine_match_source kb_matches supplier_matches)),
                     (''confidence_score'',
                        PNum (case best_match of None \<Rightarrow> 0 | Some bm \<Rightarrow> bm_confidence_score bm)),
                     (''supplier_description'',
                        PStr (case best_match of None \<Rightarrow> [] | Some bm \<Rightarrow> bm_supplier_description bm)),
                     (''supplier_part_number'',
                        PStr (case best_match of None \<Rightarrow> [] | Some bm \<Rightarrow> bm_supplier_part_number bm)),
                     (''reasoning'', PStr reasoning),
                     (''processing_timestamp'', PStr timestamp),
                     (''matcher_version'', PStr ''2.0''),
                     (''workflow_id'', PStr workflow_id) ])))"

text \<open>
  The loop \<open>for i, item in enumerate(extracted_items)\<close>. The clock is read once for every
  item: \<open>clock i\<close> is the reading taken while item \<open>i\<close> is processed.
\<close>

fun match_loop ::
  "(pyval \<Rightarrow> pyval \<Rightarrow> exn + kb_match list) \<Rightarrow> (nat \<Rightarrow> nat \<Rightarrow> real) \<Rightarrow> (real \<Rightarrow> string)
     \<Rightarrow> (nat \<Rightarrow> string) \<Rightarrow> string \<Rightarrow> supplier_item list \<Rightarrow> nat \<Rightarrow> pydict list \<Rightarrow> pydict list
     \<Rightarrow> exn + pydict list" where
  "match_loop find_similar_items overlap_score pct clock workflow_id supplier_bom i []
       enhanced_matches =
     Inr enhanced_matches"
| "match_loop find_similar_items overlap_score pct clock workflow_id supplier_bom i (item # items)
       enhanced_matches =
     (case match_one find_similar_items overlap_score pct (clock i) workflow_id supplier_bom item of
        Inl e \<Rightarrow> Inl e
      | Inr match_result \<Rightarrow>
          match_loop find_similar_items overlap_score pct clock workflow_id supplier_bom (Suc i)
            items (enhanced_matches @ [match_result]))"

definition match_items_with_knowledge_base ::
  "(pyval \<Rightarrow> pyval \<Rightarrow> exn + kb_match list) \<Rightarrow> (nat \<Rightarrow> nat \<Rightarrow> real) \<Rightarrow> (real \<Rightarrow> string)
     \<Rightarrow> (nat \<Rightarrow> string) \<Rightarrow> pydict list \<Rightarrow> supplier_item list \<Rightarrow> string \<Rightarrow> exn + pydict list" where
  "match_items_with_knowledge_base find_similar_items overlap_score pct clock extracted_items
       supplier_bom workflow_id =
     match_loop find_similar_items overlap_score pct clock workflow_id supplier_bom 0
       extracted_items []"

section \<open>Auxiliary definitions for the statements\<close>

text \<open>A record that has a given tuple of flags.\<close>

definition record_with_flags :: "flags \<Rightarrow> pydict" where
  "record_with_flags f =
     [ (''consumable_jigs_tools'', PBool (has_consumable f)),
       (''part_number'', PStr (if has_pn f then ''PN-1'' else [])),
       (''quantity'', PNum (if has_qty f then 1 else 0)),
       (''specifications'', PDict (if has_specs f then [(''size'', PStr ''M6'')] else [])),
       (''vendor_name'', if has_vendor f then PStr ''ACME'' else PNone),
       (''kit_available'', PBool (has_kit f)),
       (''pn_mismatch'', PBool (pn_mismatch f)),
       (''obsolete_pn'', PBool (obsolete_pn f)) ]"

text \<open>
  A stand-in for \<open>json.loads\<close> on a finite set of texts: each listed text has the value
  that \<open>json.loads\<close> gives it, written out by hand; any other text counts as malformed.
\<close>

definition loads_table :: "(string \<times> pyval) list \<Rightarrow> string \<Rightarrow> exn + pyval" where
  "loads_table table s = (case map_of table s of None \<Rightarrow> Inl JSONDecodeError | Some v \<Rightarrow> Inr v)"

text \<open>
  The priority order of the specification (section 4.5, step 3), written from its words and
  with the returned dictionaries written out. The score of a knowledge record is its
  \<open>confidence_score\<close>, 0 when it has none; the highest-scoring record of a list is the first
  one that no record of the list exceeds; the top supplier candidate is the head of the
  list, which \<open>_find_supplier_matches\<close> sorts by descending score. The parameter
  \<open>fuzzy_candidates\<close> says which knowledge records step (c) chooses from.
\<close>

definition kb_score :: "kb_match \<Rightarrow> real" where
  "kb_score k = get_or (kb_confidence_score k) 0"

definition is_exact :: "kb_match \<Rightarrow> bool" where
  "is_exact k = (kb_match_type k = Some ''exact'')"

definition highest_scoring :: "kb_match list \<Rightarrow> kb_match option" where
  "highest_scoring ks = find (\<lambda>k. \<forall>k' \<in> set ks. kb_score k' \<le> kb_score k) ks"

text \<open>A knowledge record as the selected match, with a display score and a match type.\<close>

definition knowledge_selection :: "kb_match \<Rightarrow> real \<Rightarrow> string \<Rightarrow> best_match" where
  "knowledge_selection k display_score match_type =
     \<lparr> bm_id = kb_id k,
       bm_supplier_description = (case kb_material_name k of None \<Rightarrow> [] | Some s \<Rightarrow> s),
       bm_supplier_part_number = (case kb_part_number k of None \<Rightarrow> [] | Some s \<Rightarrow> s),
       bm_confidence_score = display_score,
       bm_match_type = match_type,
       bm_match_source = ''knowledge_base'',
       bm_supplier_data = None \<rparr>"

text \<open>A supplier candidate as the selected match: its own entries and the source label.\<close>

definition supplier_selection :: "supplier_match \<Rightarrow> string \<Rightarrow> best_match" where
  "supplier_selection c source_label =
     \<lparr> bm_id = None,
       bm_supplier_description = sm_supplier_description c,
       bm_supplier_part_number = sm_supplier_part_number c,
       bm_confidence_score = sm_confidence_score c,
       bm_match_type = sm_match_type c,
       bm_match_source = source_label,
       bm_supplier_data = Some (sm_supplier_data c) \<rparr>"

definition priority_select ::
  "(kb_match list \<Rightarrow> kb_match list) \<Rightarrow> kb_match list \<Rightarrow> supplier_match list \<Rightarrow> best_match option"
  where
  "priority_select fuzzy_candidates kb_matches supplier_matches =
     (case find (\<lambda>k. is_exact k \<and> kb_score k > 8 / 10) kb_matches of
        Some k \<Rightarrow> Some (knowledge_selection k (min (95 / 100) (kb_score k)) ''exact'')
      | None \<Rightarrow>
          if supplier_matches \<noteq> [] \<and> sm_confidence_score (hd supplier_matches) > 7 / 10
          then Some (supplier_selection (hd supplier_matches) ''supplier_bom'')
          else (case highest_scoring (fuzzy_candidates kb_matches) of
                  Some k \<Rightarrow>
                    if kb_score k > 5 / 10
                    then Some (knowledge_selection k (max (6 / 10) (kb_score k)) ''fuzzy'')
                    else if supplier_matches \<noteq> []
                    then Some (supplier_selection (hd supplier_matches)
                                 ''supplier_bom_low_confidence'')
                    else None
                | None \<Rightarrow>
                    if supplier_matches \<noteq> []
                    then Some (supplier_selection (hd supplier_matches)
                                 ''supplier_bom_low_confidence'')
                    else None))"

text \<open>
  Step (c) as the specification and the comment in the code word it: among the fuzzy
  matches, the knowledge records that are not exact matches.
\<close>

definition claimed_select_best_match :: "kb_match list \<Rightarrow> supplier_match list \<Rightarrow> best_match option"
  where
  "claimed_select_best_match = priority_select (filter (\<lambda>k. \<not> is_exact k))"

text \<open>Step (c) among all knowledge records, whatever their match type.\<close>

definition any_type_select_best_match :: "kb_match list \<Rightarrow> supplier_match list \<Rightarrow> best_match option"
  where
  "any_type_select_best_match = priority_select (\<lambda>ks. ks)"

text \<open>The keys that the dictionary literal of the match result stores after the item's own.\<close>

definition matching_keys :: "string list" where
  "matching_keys =
     [''qa_material_name'', ''knowledge_base_matches'', ''supplier_matches'',
      ''has_previous_match'', ''match_source'', ''confidence_score'', ''supplier_description'',
      ''supplier_part_number'', ''reasoning'', ''processing_timestamp'', ''matcher_version'',
      ''workflow_id'']"

section \<open>Properties of the classification rule engine\<close>

lemma apply_rules_first_match: "first_matching_rule f = Some (triple_of (apply_rules f))"
  by (simp add: first_matching_rule_def rule_table_def triple_of_def apply_rules_def)

lemma manual_review_only_on_error:
  "(label (classify_material m) = REQUIRES_MANUAL_REVIEW) = (\<not> is_dict m)"
  by (cases m) (simp_all add: is_dict_def manual_review_def apply_rules_def)

lemma manual_review_triple:
  "(triple_of (classify_material m) = (REQUIRES_MANUAL_REVIEW, LOW, RED)) = (\<not> is_dict m)"
  by (cases m) (simp_all add: is_dict_def manual_review_def apply_rules_def triple_of_def)

lemma flags_of_record_with_flags: "flags_of (record_with_flags f) = f"
  by (cases f) (simp add: flags_of_def record_with_flags_def py_get_def py_get_or_def)

text \<open>
  C2. For every tuple of the eight flags the engine returns the label, confidence level and
  action path of the first rule of the ten-rule table whose guard holds; the flags are read
  off the record, every tuple of flags arises from a record, and the manual-review result
  (label 13, confidence low, action red) is returned exactly when the input is not a
  dictionary, which is when reading the flags raises. Being a function of the flags alone,
  the result is the same on every call.
\<close>

theorem classify_material_first_matching_rule:
  "first_matching_rule f = Some (triple_of (apply_rules f))
   \<and> classify_material (PDict (record_with_flags f)) = apply_rules f
   \<and> classify_material (PDict d) = apply_rules (flags_of d)
   \<and> ((label (classify_material m) = REQUIRES_MANUAL_REVIEW) = (\<not> is_dict m))
   \<and> ((triple_of (classify_material m) = (REQUIRES_MANUAL_REVIEW, LOW, RED)) = (\<not> is_dict m))"
  by (simp add: apply_rules_first_match manual_review_only_on_error manual_review_triple
      flags_of_record_with_flags)

theorem classify_material_first_matching_rule_witness:
  "first_matching_rule \<lparr> has_consumable = True, has_pn = True, has_qty = False, has_specs = True,
       has_vendor = False, has_kit = False, pn_mismatch = False, obsolete_pn = True \<rparr>
     = Some (CONSUMABLE_NO_QTY, MEDIUM, AMBER)
   \<and> triple_of (classify_material (PDict [(''vendor_name'', PStr ''ACME'')]))
     = (VENDOR_NAME_ONLY, MEDIUM, AMBER)
   \<and> label (classify_material (PStr ''bolt'')) = REQUIRES_MANUAL_REVIEW
   \<and> triple_of (classify_material (PStr ''bolt'')) = (REQUIRES_MANUAL_REVIEW, LOW, RED)"
  using classify_material_first_matching_rule
    [of "\<lparr> has_consumable = True, has_pn = True, has_qty = False, has_specs = True,
           has_vendor = False, has_kit = False, pn_mismatch = False, obsolete_pn = True \<rparr>"
        "[(''vendor_name'', PStr ''ACME'')]" "PStr ''bolt''"]
  by (simp add: triple_of_def apply_rules_def flags_of_def py_get_def py_get_or_def is_dict_def)

lemma flags_of_zero_quantity:
  assumes "map_of d ''quantity'' = Some (PNum 0)"
  shows "flags_of d = flags_of (AList.delete ''quantity'' d)"
  using assms by (simp add: flags_of_def py_get_def py_get_or_def delete_conv)

lemma flags_of_empty_part_number:
  assumes "map_of d ''part_number'' = Some (PStr [])"
  shows "flags_of d = flags_of (AList.delete ''part_number'' d)"
  using assms by (simp add: flags_of_def py_get_def py_get_or_def delete_conv)

text \<open>
  C10. The presence flags are truth values: a record whose quantity is the number 0 is
  classified as the record without the quantity key, a record whose part number is the
  empty string as the record without the part-number key, and a consumable with a part
  number and the quantity 0 gets the result of rule 3 (consumable, no quantity; medium;
  amber).
\<close>

theorem falsy_field_classified_as_absent:
  "(map_of d ''quantity'' = Some (PNum 0) \<longrightarrow>
      classify_material (PDict d) = classify_material (PDict (AList.delete ''quantity'' d)))
   \<and> (map_of d ''part_number'' = Some (PStr []) \<longrightarrow>
      classify_material (PDict d) = classify_material (PDict (AList.delete ''part_number'' d)))
   \<and> (truthy (py_get_or d ''consumable_jigs_tools'' (PBool False))
        \<and> truthy (py_get d ''part_number'') \<and> map_of d ''quantity'' = Some (PNum 0) \<longrightarrow>
      triple_of (classify_material (PDict d)) = (CONSUMABLE_NO_QTY, MEDIUM, AMBER))"
proof (intro conjI impI)
  assume "map_of d ''quantity'' = Some (PNum 0)"
  then show "classify_material (PDict d) = classify_material (PDict (AList.delete ''quantity'' d))"
    by (simp add: flags_of_zero_quantity)
next
  assume "map_of d ''part_number'' = Some (PStr [])"
  then show "classify_material (PDict d) = classify_material (PDict (AList.delete ''part_number'' d))"
    by (simp add: flags_of_empty_part_number)
next
  assume "truthy (py_get_or d ''consumable_jigs_tools'' (PBool False))
        \<and> truthy (py_get d ''part_number'') \<and> map_of d ''quantity'' = Some (PNum 0)"
  then show "triple_of (classify_material (PDict d)) = (CONSUMABLE_NO_QTY, MEDIUM, AMBER)"
    by (simp add: triple_of_def apply_rules_def flags_of_def py_get_def)
qed

theorem falsy_field_classified_as_absent_witness:
  "map_of [(''consumable_jigs_tools'', PBool True), (''part_number'', PStr ''BOLT-M6''),
           (''quantity'', PNum 0), (''specifications'', PDict [(''size'', PStr ''M6'')])]
       ''quantity'' = Some (PNum 0)
   \<and> triple_of (classify_material (PDict
        [(''consumable_jigs_tools'', PBool True), (''part_number'', PStr ''BOLT-M6''),
         (''quantity'', PNum 0), (''specifications'', PDict [(''size'', PStr ''M6'')])]))
       = (CONSUMABLE_NO_QTY, MEDIUM, AMBER)
   \<and> classify_material (PDict
        [(''consumable_jigs_tools'', PBool True), (''part_number'', PStr ''BOLT-M6''),
         (''quantity'', PNum 0), (''specifications'', PDict [(''size'', PStr ''M6'')])])
       = classify_material (PDict
        [(''consumable_jigs_tools'', PBool True), (''part_number'', PStr ''BOLT-M6''),
         (''specifications'', PDict [(''size'', PStr ''M6'')])])
   \<and> map_of [(''consumable_jigs_tools'', PBool True), (''part_number'', PStr [])]
       ''part_number'' = Some (PStr [])
   \<and> classify_material (PDict [(''consumable_jigs_tools'', PBool True), (''part_number'', PStr [])])
       = classify_material (PDict [(''consumable_jigs_tools'', PBool True)])"
  using falsy_field_classified_as_absent
    [of "[(''consumable_jigs_tools'', PBool True), (''part_number'', PStr ''BOLT-M6''),
          (''quantity'', PNum 0), (''specifications'', PDict [(''size'', PStr ''M6'')])]"]
    falsy_field_classified_as_absent
    [of "[(''consumable_jigs_tools'', PBool True), (''part_number'', PStr [])]"]
  by (simp add: py_get_def py_get_or_def AList.delete_eq triple_of_def apply_rules_def flags_of_def)


section \<open>Properties of deduplication\<close>

lemma dedup_loop_append:
  "dedup_loop ms seen (u @ v) = u @ dedup_loop ms seen v"
  by (induction ms arbitrary: seen v) simp_all

lemma dedup_loop_acc: "dedup_loop ms seen u = u @ dedup_loop ms seen []"
  using dedup_loop_append [of ms seen u "[]"] by simp

lemma dedup_loop_Cons:
  "dedup_loop (m # ms) seen [] =
     (if unique_key m \<in> seen then dedup_loop ms seen []
      else m # dedup_loop ms (insert (unique_key m) seen) [])"
  using dedup_loop_acc [of ms "insert (unique_key m) seen" "[m]"] by simp

lemma dedup_loop_keys:
  "set (map unique_key (dedup_loop ms seen [])) = set (map unique_key ms) - seen"
proof (induction ms arbitrary: seen)
  case Nil
  show ?case by simp
next
  case (Cons m ms)
  show ?case unfolding dedup_loop_Cons using Cons.IH by auto
qed

lemma dedup_loop_distinct: "distinct (map unique_key (dedup_loop ms seen []))"
proof (induction ms arbitrary: seen)
  case Nil
  show ?case by simp
next
  case (Cons m ms)
  have "unique_key m \<notin> set (map unique_key (dedup_loop ms (insert (unique_key m) seen) []))"
    unfolding dedup_loop_keys by simp
  with Cons.IH show ?case unfolding dedup_loop_Cons by simp
qed

lemma dedup_loop_subseq: "subseq (dedup_loop ms seen []) ms"
proof (induction ms arbitrary: seen)
  case Nil
  show ?case by simp
next
  case (Cons m ms)
  show ?case unfolding dedup_loop_Cons using Cons.IH by (auto intro: list_emb_Cons)
qed

lemma dedup_loop_fixed:
  "distinct (map unique_key ms) \<Longrightarrow> set (map unique_key ms) \<inter> seen = {}
     \<Longrightarrow> dedup_loop ms seen [] = ms"
proof (induction ms arbitrary: seen)
  case Nil
  show ?case by simp
next
  case (Cons m ms)
  from Cons.prems have "dedup_loop ms (insert (unique_key m) seen) [] = ms"
    by (intro Cons.IH) auto
  with Cons.prems show ?case unfolding dedup_loop_Cons by auto
qed

lemma dedup_loop_first:
  "x \<in> set (dedup_loop ms seen []) \<Longrightarrow> find (\<lambda>y. unique_key y = unique_key x) ms = Some x"
proof (induction ms arbitrary: seen)
  case Nil
  then show ?case by simp
next
  case (Cons m ms)
  show ?case
  proof (cases "unique_key m \<in> seen")
    case True
    with Cons.prems have in_rest: "x \<in> set (dedup_loop ms seen [])"
      by (simp add: dedup_loop_Cons del: dedup_loop.simps)
    then have "unique_key x \<in> set (map unique_key (dedup_loop ms seen []))" by simp
    then have "unique_key x \<notin> seen" unfolding dedup_loop_keys by simp
    with True have "unique_key m \<noteq> unique_key x" by auto
    with Cons.IH [OF in_rest] show ?thesis by simp
  next
    case False
    with Cons.prems
    have "x = m \<or> x \<in> set (dedup_loop ms (insert (unique_key m) seen) [])"
      by (simp add: dedup_loop_Cons del: dedup_loop.simps)
    then show ?thesis
    proof
      assume "x = m"
      then show ?thesis by simp
    next
      assume in_rest: "x \<in> set (dedup_loop ms (insert (unique_key m) seen) [])"
      then have "unique_key x \<in> set (map unique_key (dedup_loop ms (insert (unique_key m) seen) []))"
        by simp
      then have "unique_key m \<noteq> unique_key x" unfolding dedup_loop_keys by auto
      with Cons.IH [OF in_rest] show ?thesis by simp
    qed
  qed
qed

lemma deduplicate_materials_loop: "deduplicate_materials ms = dedup_loop ms {} []"
  by (simp add: deduplicate_materials_def)

text \<open>
  The key of the loop is the normalised name, a bar and the normalised part number, so two
  items with the same pair of normalised fields have the same key.
\<close>

lemma unique_key_written_out:
  "unique_key m =
     strip (lower (name m)) @ ''|''
       @ strip (lower (case part_number m of None \<Rightarrow> [] | Some pn \<Rightarrow> pn))"
  by (simp add: unique_key_def name_key_def part_key_def)

lemma distinct_pairs:
  assumes "distinct (map unique_key ms)"
  shows "distinct (map (\<lambda>m. (strip (lower (name m)),
                             strip (lower (case part_number m of None \<Rightarrow> [] | Some pn \<Rightarrow> pn)))) ms)"
proof -
  let ?pair = "\<lambda>m. (strip (lower (name m)),
                     strip (lower (case part_number m of None \<Rightarrow> [] | Some pn \<Rightarrow> pn)))"
  let ?bar = "\<lambda>p :: string \<times> string. fst p @ ''|'' @ snd p"
  have "map unique_key ms = map ?bar (map ?pair ms)"
    by (simp add: unique_key_written_out)
  with assms have "distinct (map ?bar (map ?pair ms))" by (simp only:)
  then show ?thesis using distinct_map [of ?bar "map ?pair ms"] by blast
qed

lemma find_stronger:
  assumes "find P xs = Some x" "Q x" "\<And>y. y \<in> set xs \<Longrightarrow> Q y \<Longrightarrow> P y"
  shows "find Q xs = Some x"
  using assms by (induction xs) (auto split: if_splits)

text \<open>
  C7. Deduplication run on its own output changes nothing; no two surviving items have the
  same pair (lower-cased trimmed name, lower-cased trimmed part number, the empty string
  for a missing part number); the survivors are a subsequence of the input, so they keep
  their relative order; every survivor is the first item of the input with its pair, and
  with its key; and every key of the input survives.
\<close>

theorem deduplicate_materials_idempotent_first_seen:
  "deduplicate_materials (deduplicate_materials ms) = deduplicate_materials ms
   \<and> distinct (map (\<lambda>m. (strip (lower (name m)),
                           strip (lower (case part_number m of None \<Rightarrow> [] | Some pn \<Rightarrow> pn))))
                 (deduplicate_materials ms))
   \<and> subseq (deduplicate_materials ms) ms
   \<and> (\<forall>x \<in> set (deduplicate_materials ms).
         find (\<lambda>y. strip (lower (name y)) = strip (lower (name x))
                  \<and> strip (lower (case part_number y of None \<Rightarrow> [] | Some pn \<Rightarrow> pn))
                      = strip (lower (case part_number x of None \<Rightarrow> [] | Some pn \<Rightarrow> pn))) ms
           = Some x)
   \<and> (\<forall>x \<in> set (deduplicate_materials ms). find (\<lambda>y. unique_key y = unique_key x) ms = Some x)
   \<and> set (map unique_key (deduplicate_materials ms)) = set (map unique_key ms)"
proof (intro conjI)
  show "deduplicate_materials (deduplicate_materials ms) = deduplicate_materials ms"
    unfolding deduplicate_materials_loop
    by (rule dedup_loop_fixed) (simp_all add: dedup_loop_distinct)
  show "distinct (map (\<lambda>m. (strip (lower (name m)),
                           strip (lower (case part_number m of None \<Rightarrow> [] | Some pn \<Rightarrow> pn))))
                 (deduplicate_materials ms))"
    unfolding deduplicate_materials_loop by (rule distinct_pairs) (rule dedup_loop_distinct)
  show "subseq (deduplicate_materials ms) ms"
    unfolding deduplicate_materials_loop by (rule dedup_loop_subseq)
  show first_key:
    "\<forall>x \<in> set (deduplicate_materials ms). find (\<lambda>y. unique_key y = unique_key x) ms = Some x"
    unfolding deduplicate_materials_loop using dedup_loop_first by blast
  show "\<forall>x \<in> set (deduplicate_materials ms).
         find (\<lambda>y. strip (lower (name y)) = strip (lower (name x))
                  \<and> strip (lower (case part_number y of None \<Rightarrow> [] | Some pn \<Rightarrow> pn))
                      = strip (lower (case part_number x of None \<Rightarrow> [] | Some pn \<Rightarrow> pn))) ms
           = Some x"
  proof
    fix x
    assume "x \<in> set (deduplicate_materials ms)"
    with first_key have "find (\<lambda>y. unique_key y = unique_key x) ms = Some x" by blast
    then show "find (\<lambda>y. strip (lower (name y)) = strip (lower (name x))
                  \<and> strip (lower (case part_number y of None \<Rightarrow> [] | Some pn \<Rightarrow> pn))
                      = strip (lower (case part_number x of None \<Rightarrow> [] | Some pn \<Rightarrow> pn))) ms
           = Some x"
      by (rule find_stronger) (simp_all add: unique_key_written_out)
  qed
  show "set (map unique_key (deduplicate_materials ms)) = set (map unique_key ms)"
    unfolding deduplicate_materials_loop dedup_loop_keys by simp
qed

text \<open>
  Four items, the second and the fourth equal to the first and the third up to case,
  surrounding blanks and a part number that is missing or blank.
\<close>

theorem deduplicate_materials_idempotent_first_seen_witness:
  "deduplicate_materials
      [demo_material ''M6 Bolt'' ''fasteners'' [] [] (9 / 10) [] [] [] ''BOLT-M6'' 4 ''pieces'',
       demo_material ''  m6 BOLT '' ''hardware'' [] [] (1 / 2) [] [] [] '' bolt-m6'' 1 ''box'',
       (demo_material ''Washer'' ''hardware'' [] [] (7 / 10) [] [] [] ''W'' 2 ''pieces'')\<lparr>part_number := None\<rparr>,
       demo_material ''WASHER '' ''hardware'' [] [] (3 / 10) [] [] [] ''  '' 8 ''pieces'']
     = [demo_material ''M6 Bolt'' ''fasteners'' [] [] (9 / 10) [] [] [] ''BOLT-M6'' 4 ''pieces'',
       (demo_material ''Washer'' ''hardware'' [] [] (7 / 10) [] [] [] ''W'' 2 ''pieces'')\<lparr>part_number := None\<rparr>]
   \<and> deduplicate_materials
      [demo_material ''M6 Bolt'' ''fasteners'' [] [] (9 / 10) [] [] [] ''BOLT-M6'' 4 ''pieces'',
       (demo_material ''Washer'' ''hardware'' [] [] (7 / 10) [] [] [] ''W'' 2 ''pieces'')\<lparr>part_number := None\<rparr>]
     = [demo_material ''M6 Bolt'' ''fasteners'' [] [] (9 / 10) [] [] [] ''BOLT-M6'' 4 ''pieces'',
       (demo_material ''Washer'' ''hardware'' [] [] (7 / 10) [] [] [] ''W'' 2 ''pieces'')\<lparr>part_number := None\<rparr>]
   \<and> find (\<lambda>y. strip (lower (name y)) = strip (lower (name (demo_material ''M6 Bolt'' ''fasteners'' [] [] (9 / 10) [] [] [] ''BOLT-M6'' 4 ''pieces'')))
            \<and> strip (lower (case part_number y of None \<Rightarrow> [] | Some pn \<Rightarrow> pn))
                = strip (lower (case part_number (demo_material ''M6 Bolt'' ''fasteners'' [] [] (9 / 10) [] [] [] ''BOLT-M6'' 4 ''pieces'') of None \<Rightarrow> [] | Some pn \<Rightarrow> pn)))
      [demo_material ''M6 Bolt'' ''fasteners'' [] [] (9 / 10) [] [] [] ''BOLT-M6'' 4 ''pieces'',
       demo_material ''  m6 BOLT '' ''hardware'' [] [] (1 / 2) [] [] [] '' bolt-m6'' 1 ''box'',
       (demo_material ''Washer'' ''hardware'' [] [] (7 / 10) [] [] [] ''W'' 2 ''pieces'')\<lparr>part_number := None\<rparr>,
       demo_material ''WASHER '' ''hardware'' [] [] (3 / 10) [] [] [] ''  '' 8 ''pieces'']
     = Some (demo_material ''M6 Bolt'' ''fasteners'' [] [] (9 / 10) [] [] [] ''BOLT-M6'' 4 ''pieces'')"
proof -
  let ?ms = "[demo_material ''M6 Bolt'' ''fasteners'' [] [] (9 / 10) [] [] [] ''BOLT-M6'' 4 ''pieces'',
       demo_material ''  m6 BOLT '' ''hardware'' [] [] (1 / 2) [] [] [] '' bolt-m6'' 1 ''box'',
       (demo_material ''Washer'' ''hardware'' [] [] (7 / 10) [] [] [] ''W'' 2 ''pieces'')\<lparr>part_number := None\<rparr>,
       demo_material ''WASHER '' ''hardware'' [] [] (3 / 10) [] [] [] ''  '' 8 ''pieces'']"
  let ?A = "demo_material ''M6 Bolt'' ''fasteners'' [] [] (9 / 10) [] [] [] ''BOLT-M6'' 4 ''pieces''"
  let ?B = "(demo_material ''Washer'' ''hardware'' [] [] (7 / 10) [] [] [] ''W'' 2 ''pieces'')\<lparr>part_number := None\<rparr>"
  have e: "deduplicate_materials ?ms = [?A, ?B]"
    by code_simp
  note t = deduplicate_materials_idempotent_first_seen [of ?ms]
  from t have "deduplicate_materials (deduplicate_materials ?ms) = deduplicate_materials ?ms"
    by blast
  then have idem: "deduplicate_materials [?A, ?B] = [?A, ?B]" unfolding e .
  have mem: "?A \<in> set (deduplicate_materials ?ms)" unfolding e by simp
  from t have "\<forall>x \<in> set (deduplicate_materials ?ms).
         find (\<lambda>y. strip (lower (name y)) = strip (lower (name x))
                  \<and> strip (lower (case part_number y of None \<Rightarrow> [] | Some pn \<Rightarrow> pn))
                      = strip (lower (case part_number x of None \<Rightarrow> [] | Some pn \<Rightarrow> pn))) ?ms
           = Some x"
    by blast
  with mem have "find (\<lambda>y. strip (lower (name y)) = strip (lower (name (?A)))
            \<and> strip (lower (case part_number y of None \<Rightarrow> [] | Some pn \<Rightarrow> pn))
                = strip (lower (case part_number (?A) of None \<Rightarrow> [] | Some pn \<Rightarrow> pn))) ?ms = Some ?A"
    by blast
  with e idem show ?thesis by blast
qed

section \<open>Properties of the chunker\<close>

lemma py_join_Cons:
  "py_join sep (x # xs) = (if xs = [] then x else x @ sep @ py_join sep xs)"
  by (cases xs) simp_all

lemma py_join_append:
  "xs \<noteq> [] \<Longrightarrow> ys \<noteq> [] \<Longrightarrow> py_join sep (xs @ ys) = py_join sep xs @ sep @ py_join sep ys"
  by (induction xs) (simp_all add: py_join_Cons)

lemma split_scan_not_Nil: "split_scan sep cur s \<noteq> []"
  by (induction sep cur s rule: split_scan.induct) simp_all

lemma join_split_scan:
  "sep \<noteq> [] \<Longrightarrow> py_join sep (split_scan sep cur s) = cur @ s"
proof (induction sep cur s rule: split_scan.induct)
  case (1 sep cur)
  show ?case by simp
next
  case (2 sep cur c cs)
  show ?case
  proof (cases "prefix sep (c # cs)")
    case True
    then have eq: "sep @ drop (length sep) (c # cs) = c # cs"
      by (metis append_eq_conv_conj prefixE)
    from True 2 have "py_join sep (split_scan sep [] (drop (length sep) (c # cs)))
        = drop (length sep) (c # cs)" by simp
    with True 2(3) eq show ?thesis
      by (simp add: py_join_Cons split_scan_not_Nil)
  next
    case False
    with 2 show ?thesis by simp
  qed
qed

lemma join_py_split: "sep \<noteq> [] \<Longrightarrow> py_join sep (py_split sep s) = s"
  by (simp add: py_split_def join_split_scan)

text \<open>
  The packing loop cuts the pieces it is given into consecutive groups, none of them empty,
  and emits the join of each group.
\<close>

lemma greedy_pack_groups:
  "\<exists>groups. greedy_pack sep max_size items chunks cur len = chunks @ map (py_join sep) groups
      \<and> concat groups = cur @ items \<and> [] \<notin> set groups"
proof (induction items arbitrary: chunks cur len)
  case Nil
  show ?case
  proof (cases "cur = []")
    case True
    then have "greedy_pack sep max_size [] chunks cur len = chunks @ map (py_join sep) []
        \<and> concat [] = cur @ [] \<and> [] \<notin> set ([] :: string list list)" by simp
    then show ?thesis by blast
  next
    case False
    then have "greedy_pack sep max_size [] chunks cur len = chunks @ map (py_join sep) [cur]
        \<and> concat [cur] = cur @ [] \<and> [] \<notin> set [cur]" by simp
    then show ?thesis by blast
  qed
next
  case (Cons x items)
  show ?case
  proof (cases "len + length x > max_size \<and> cur \<noteq> []")
    case True
    from Cons.IH [of "chunks @ [py_join sep cur]" "[x]" "length x"]
    obtain groups where g:
      "greedy_pack sep max_size items (chunks @ [py_join sep cur]) [x] (length x)
         = (chunks @ [py_join sep cur]) @ map (py_join sep) groups"
      "concat groups = [x] @ items" "[] \<notin> set groups" by blast
    from True g have "greedy_pack sep max_size (x # items) chunks cur len
         = chunks @ map (py_join sep) (cur # groups)
       \<and> concat (cur # groups) = cur @ x # items \<and> [] \<notin> set (cur # groups)" by auto
    then show ?thesis by blast
  next
    case False
    from Cons.IH [of chunks "cur @ [x]" "len + length x"]
    obtain groups where g:
      "greedy_pack sep max_size items chunks (cur @ [x]) (len + length x)
         = chunks @ map (py_join sep) groups"
      "concat groups = (cur @ [x]) @ items" "[] \<notin> set groups" by blast
    from False g have "greedy_pack sep max_size (x # items) chunks cur len
         = chunks @ map (py_join sep) groups
       \<and> concat groups = cur @ x # items \<and> [] \<notin> set groups" by auto
    then show ?thesis by blast
  qed
qed

lemma join_groups:
  "[] \<notin> set groups \<Longrightarrow> py_join sep (map (py_join sep) groups) = py_join sep (concat groups)"
proof (induction groups)
  case Nil
  show ?case by simp
next
  case (Cons g groups)
  show ?case
  proof (cases "groups = []")
    case True
    then show ?thesis by simp
  next
    case False
    with Cons.prems have ne: "concat groups \<noteq> []" "g \<noteq> []" by (cases groups; auto)+
    from Cons have ih: "py_join sep (map (py_join sep) groups) = py_join sep (concat groups)"
      by simp
    have "py_join sep (map (py_join sep) (g # groups))
        = py_join sep g @ sep @ py_join sep (map (py_join sep) groups)"
      using False by (simp add: py_join_Cons)
    also have "\<dots> = py_join sep (g @ concat groups)"
      unfolding ih using py_join_append [OF ne(2) ne(1), of sep] by simp
    finally show ?thesis by simp
  qed
qed

lemma join_greedy_pack:
  "py_join sep (greedy_pack sep max_size items [] [] 0) = py_join sep items"
proof -
  obtain groups where g: "greedy_pack sep max_size items [] [] 0 = [] @ map (py_join sep) groups"
    "concat groups = [] @ items" "[] \<notin> set groups"
    using greedy_pack_groups [of sep max_size items "[]" "[]" 0] by blast
  then show ?thesis by (simp add: join_groups)
qed

lemma join_split_large_chunk: "py_join [newline] (split_large_chunk chunk max_size) = chunk"
  by (simp add: split_large_chunk_def join_greedy_pack join_py_split)

lemma join_paragraph_chunks:
  "py_join [newline, newline] (paragraph_chunks text max_chunk_size) = text"
  by (simp add: paragraph_chunks_def join_greedy_pack join_py_split)

text \<open>
  C5. The chunks, in the grouping the chunker builds them in, put together again with a
  newline between the sub-chunks of one paragraph-level chunk and a blank line between
  paragraph-level chunks, are the text; the list the chunker returns is that grouping
  flattened.
\<close>

theorem chunks_reassemble_to_text:
  "reassemble (chunk_groups text max_chunk_size) = text
   \<and> concat (chunk_groups text max_chunk_size) = split_into_extraction_chunks text max_chunk_size"
proof
  have "map (py_join [newline])
          (map (\<lambda>chunk. if length chunk > max_chunk_size
                         then split_large_chunk chunk max_chunk_size else [chunk])
               (paragraph_chunks text max_chunk_size))
        = paragraph_chunks text max_chunk_size"
    by (simp add: map_idI join_split_large_chunk o_def)
  then show "reassemble (chunk_groups text max_chunk_size) = text"
    by (simp add: reassemble_def chunk_groups_def join_paragraph_chunks)
  show "concat (chunk_groups text max_chunk_size) = split_into_extraction_chunks text max_chunk_size"
    by (simp add: chunk_groups_def split_into_extraction_chunks_def)
qed


theorem chunks_reassemble_to_text_witness:
  "split_into_extraction_chunks
      (''aaaaa'' @ [newline, newline] @ ''bbbbbb'' @ [newline] @ ''ccccccc'' @ [newline] @ ''dd'') 10
     = [''aaaaa'', ''bbbbbb'', ''ccccccc'' @ [newline] @ ''dd'']
   \<and> reassemble (chunk_groups
        (''aaaaa'' @ [newline, newline] @ ''bbbbbb'' @ [newline] @ ''ccccccc'' @ [newline] @ ''dd'') 10)
     = ''aaaaa'' @ [newline, newline] @ ''bbbbbb'' @ [newline] @ ''ccccccc'' @ [newline] @ ''dd''"
proof
  show "split_into_extraction_chunks
      (''aaaaa'' @ [newline, newline] @ ''bbbbbb'' @ [newline] @ ''ccccccc'' @ [newline] @ ''dd'') 10
     = [''aaaaa'', ''bbbbbb'', ''ccccccc'' @ [newline] @ ''dd'']"
    by code_simp
  show "reassemble (chunk_groups
        (''aaaaa'' @ [newline, newline] @ ''bbbbbb'' @ [newline] @ ''ccccccc'' @ [newline] @ ''dd'') 10)
     = ''aaaaa'' @ [newline, newline] @ ''bbbbbb'' @ [newline] @ ''ccccccc'' @ [newline] @ ''dd''"
    using chunks_reassemble_to_text
      [of "''aaaaa'' @ [newline, newline] @ ''bbbbbb'' @ [newline] @ ''ccccccc'' @ [newline] @ ''dd''" 10]
    by blast
qed

text \<open>A piece without a newline is read through by the scan for a separator that starts with one.\<close>

lemma split_scan_no_newline:
  "newline \<notin> set xs \<Longrightarrow>
     split_scan (newline # sep) cur (xs @ rest) = split_scan (newline # sep) (cur @ xs) rest"
  by (induction xs arbitrary: cur) auto

lemma split_scan_line: "newline \<notin> set xs \<Longrightarrow> split_scan (newline # sep) [] xs = [xs]"
  using split_scan_no_newline [of xs sep "[]" "[]"] by simp

lemma py_split_two_paragraphs:
  assumes "newline \<notin> set A" "newline \<notin> set B"
  shows "py_split [newline, newline] (A @ [newline, newline] @ B) = [A, B]"
proof -
  have "split_scan [newline, newline] [] (A @ ([newline, newline] @ B))
      = split_scan [newline, newline] A ([newline, newline] @ B)"
    using split_scan_no_newline [OF assms(1), of "[newline]" "[]"] by simp
  also have "\<dots> = A # split_scan [newline, newline] [] B" by simp
  also have "\<dots> = [A, B]" using split_scan_line [OF assms(2)] by simp
  finally show ?thesis by (simp add: py_split_def)
qed

lemma py_split_three_lines:
  assumes "newline \<notin> set A" "newline \<notin> set B"
  shows "py_split [newline] (A @ [newline, newline] @ B) = [A, [], B]"
proof -
  have "split_scan [newline] [] (A @ ([newline, newline] @ B))
      = split_scan [newline] A ([newline, newline] @ B)"
    using split_scan_no_newline [OF assms(1), of "[]" "[]"] by simp
  also have "\<dots> = A # [] # split_scan [newline] [] B" by simp
  also have "\<dots> = [A, [], B]" using split_scan_line [OF assms(2)] by simp
  finally show ?thesis by (simp add: py_split_def)
qed

text \<open>
  Two paragraphs of \<open>n\<close> characters each with a limit of \<open>2 n\<close>: the running length, which
  leaves the separators out, never passes the limit, at either level, and the whole text of
  \<open>2 n + 2\<close> characters comes back as one chunk.
\<close>

lemma two_paragraphs_one_chunk:
  assumes "newline \<notin> set A" "newline \<notin> set B" "length A = n" "length B = n"
  shows "split_into_extraction_chunks (A @ [newline, newline] @ B) (2 * n)
           = [A @ [newline, newline] @ B]"
proof -
  let ?T = "A @ [newline, newline] @ B"
  have len: "length ?T = 2 * n + 2" using assms by simp
  have sp2: "py_split [newline, newline] ?T = [A, B]"
    using assms(1,2) by (rule py_split_two_paragraphs)
  have sp1: "py_split [newline] ?T = [A, [], B]"
    using assms(1,2) by (rule py_split_three_lines)
  have par: "paragraph_chunks ?T (2 * n) = [?T]"
    unfolding paragraph_chunks_def sp2 using assms(3,4) by simp
  have "\<not> length ?T \<le> 2 * n" using len by simp
  then have big: "split_large_chunk ?T (2 * n) = [?T]"
    unfolding split_large_chunk_def sp1 using assms(3,4) by simp
  show ?thesis
    unfolding split_into_extraction_chunks_def par using len big by simp
qed

text \<open>
  C4, on the code: with the limit of 1500 that the coordinator passes, a text of two
  paragraphs of 750 characters is returned as a single chunk of 1502 characters, and that
  chunk is not one line: it holds three lines.
\<close>

theorem chunk_longer_than_limit:
  "split_into_extraction_chunks
      (replicate 750 CHR ''a'' @ [newline, newline] @ replicate 750 CHR ''b'') 1500
     = [replicate 750 CHR ''a'' @ [newline, newline] @ replicate 750 CHR ''b'']
   \<and> length (replicate 750 CHR ''a'' @ [newline, newline] @ replicate 750 CHR ''b'') = 1502
   \<and> py_split [newline] (replicate 750 CHR ''a'' @ [newline, newline] @ replicate 750 CHR ''b'')
     = [replicate 750 CHR ''a'', [], replicate 750 CHR ''b'']"
proof -
  have a: "newline \<notin> set (replicate 750 CHR ''a'')" and b: "newline \<notin> set (replicate 750 CHR ''b'')"
    by (simp_all add: newline_def)
  from two_paragraphs_one_chunk [OF a b, of 750] py_split_three_lines [OF a b]
  show ?thesis by simp
qed


section \<open>Properties of the decoder and the coordinator\<close>

lemma strategy2_loop_all_fail:
  "(\<And>s. loads s = Inl JSONDecodeError) \<Longrightarrow> strategy2_loop loads ms = FellThrough"
  by (induction ms) simp_all

lemma strategy3_loop_all_fail:
  "(\<And>s. loads s = Inl JSONDecodeError) \<Longrightarrow> strategy3_loop loads ms objects = Inr objects"
  by (induction ms) simp_all

lemma parse_json_response_all_fail:
  assumes "\<And>s. loads s = Inl JSONDecodeError"
  shows "parse_json_response loads response = Inr []"
  using assms
  by (simp add: parse_json_response_def parse_strategies_def or_else_def strategy1_def
      strategy2_def strategy3_def strategy4_def strategy2_loop_all_fail strategy3_loop_all_fail
      Let_def)

lemma combine_loop_nothing:
  assumes "\<forall>r \<in> set rs. r = Inr [] \<or> (\<exists>e. r = Inl e)"
  shows "combine_loop rs all_materials successful = (all_materials, successful)"
  using assms by (induction rs) auto

lemma dedup_demo:
  "deduplicate_materials create_demo_materials_chunk_enhanced = create_demo_materials_chunk_enhanced"
  by code_simp

text \<open>
  When every chunk yields nothing, the mapping that the coordinator returns holds the demo
  items and has neither the \<open>error\<close> nor the \<open>demo_mode\<close> key.
\<close>

lemma coordinator_nothing_extracted:
  assumes "\<And>chunk cats i n. extract chunk cats i n = Inr [] \<or> (\<exists>e. extract chunk cats i n = Inl e)"
  shows "materials (fst (process_translated_content extract st (Some text) categories))
           = create_demo_materials_chunk_enhanced
         \<and> demo_mode (fst (process_translated_content extract st (Some text) categories)) = None
         \<and> error (fst (process_translated_content extract st (Some text) categories)) = None"
proof -
  let ?chunks = "split_into_extraction_chunks text 1500"
  have c: "combine_loop
             (map (\<lambda>(i, chunk). extract chunk focus (Suc i) (length ?chunks)) (enumerate 0 ?chunks))
             [] 0 = ([], 0)" for focus
    by (rule combine_loop_nothing) (use assms in auto)
  show ?thesis
    unfolding process_translated_content_def by (simp add: Let_def c dedup_demo)
qed

text \<open>The handler of the coordinator does set the flag.\<close>

lemma coordinator_handler_sets_flag:
  "demo_mode (fst (process_translated_content extract st None categories)) = Some True
   \<and> materials (fst (process_translated_content extract st None categories))
       = create_demo_materials_chunk_enhanced"
  by (simp add: process_translated_content_def Let_def)

text \<open>
  C6, on the code: the generation service is available and answers every chunk with a
  sentence that holds no record, so no chunk yields anything and no exception occurs. The
  coordinator returns the three demo items, and the mapping has no \<open>demo_mode\<close> key; the
  mapping built by the exception handler has it.
\<close>

theorem demo_items_without_demo_flag:
  "materials (fst (process_translated_content
       (extract_from_chunk_enhanced True (\<lambda>cats text i n. Inr ''No materials are mentioned.'')
          (\<lambda>s. Inl JSONDecodeError) create)
       st (Some ''Tighten until snug.'') []))
     = create_demo_materials_chunk_enhanced
   \<and> demo_mode (fst (process_translated_content
       (extract_from_chunk_enhanced True (\<lambda>cats text i n. Inr ''No materials are mentioned.'')
          (\<lambda>s. Inl JSONDecodeError) create)
       st (Some ''Tighten until snug.'') [])) = None
   \<and> demo_mode (fst (process_translated_content
       (extract_from_chunk_enhanced True (\<lambda>cats text i n. Inr ''No materials are mentioned.'')
          (\<lambda>s. Inl JSONDecodeError) create)
       st None [])) = Some True"
proof -
  have "\<And>chunk cats i n.
      extract_from_chunk_enhanced True (\<lambda>cats text i n. Inr ''No materials are mentioned.'')
          (\<lambda>s. Inl JSONDecodeError) create chunk cats i n = Inr []"
    by (simp add: extract_from_chunk_enhanced_def parse_json_response_all_fail)
  then show ?thesis
    using coordinator_nothing_extracted
      [of "extract_from_chunk_enhanced True (\<lambda>cats text i n. Inr ''No materials are mentioned.'')
          (\<lambda>s. Inl JSONDecodeError) create" st "''Tighten until snug.''" "[]"]
      coordinator_handler_sets_flag
    by simp
qed


text \<open>
  C3. Whatever the input and whatever \<open>json.loads\<close> does on the texts it is given, also when
  it raises something else than a decode error, the decoder returns a list.
\<close>

theorem parse_json_response_returns_list:
  "\<exists>data. parse_json_response loads response = Inr data"
  by (cases "parse_strategies loads response") (simp_all add: parse_json_response_def)

theorem parse_json_response_returns_list_witness:
  "(\<exists>data. parse_json_response (\<lambda>s. Inl JSONDecodeError) [] = Inr data)
   \<and> (\<exists>data. parse_json_response (\<lambda>s. Inl (OtherException ''RecursionError'')) ''}{ not json ]['' = Inr data)"
  using parse_json_response_returns_list [of "\<lambda>s. Inl JSONDecodeError" "[]"]
    parse_json_response_returns_list [of "\<lambda>s. Inl (OtherException ''RecursionError'')" "''}{ not json ][''"]
  by simp

subsection \<open>The array pattern of strategy 2\<close>

lemma star_greedy_ge: "j \<in> set (star_greedy step fuel i) \<Longrightarrow> i \<le> j"
proof (induction fuel arbitrary: i j)
  case 0
  then show ?case by simp
next
  case (Suc fuel)
  from Suc.prems have "j = i \<or> (\<exists>k. i < k \<and> j \<in> set (star_greedy step fuel k))"
    by (auto split: if_splits)
  then show ?case using Suc.IH by (auto dest: less_imp_le order_trans)
qed

lemma rmatch_Seq_Eol:
  "rmatch (Seq Eol r) s i =
     (if i = length s \<or> (Suc i = length s \<and> s ! i = newline) then rmatch r s i else [])"
  by auto

lemma no_brace_at_end:
  assumes "i = length s \<or> (Suc i = length s \<and> s ! i = newline)" "i \<le> j"
  shows "rmatch (Chr CHR ''{'') s j = []"
proof (cases "j < length s")
  case True
  with assms have "j = i" "s ! i = newline" by auto
  then show ?thesis by (simp add: Chr_def newline_def)
next
  case False
  then show ?thesis by (simp add: Chr_def)
qed

lemma spaces_then_brace_at_end:
  assumes "i = length s \<or> (Suc i = length s \<and> s ! i = newline)"
  shows "rmatch (Seq (Star Space) (Seq (Chr CHR ''{'') r)) s i = []"
proof -
  have "rmatch (Seq (Chr CHR ''{'') r) s j = []"
    if "j \<in> set (star_greedy (rmatch Space s) (length s) i)" for j
  proof -
    from that have "i \<le> j" by (rule star_greedy_ge)
    with assms have "rmatch (Chr CHR ''{'') s j = []" by (rule no_brace_at_end)
    then show ?thesis by simp
  qed
  then show ?thesis by simp
qed

text \<open>
  The pattern opens with two end anchors, and behind the end of the text there is no brace
  to read: it matches nowhere, in no text.
\<close>

lemma array_pattern_no_match: "rmatch array_pattern s i = []"
proof -
  obtain r where r: "array_pattern = Seq Eol (Seq Eol (Seq (Star Space) (Seq (Chr CHR ''{'') r)))"
    by (simp add: array_pattern_def seqs_def)
  show ?thesis
    unfolding r rmatch_Seq_Eol using spaces_then_brace_at_end by simp
qed

lemma finditer_no_match: "(\<And>i. rmatch r s i = []) \<Longrightarrow> finditer r s i = []"
proof (induction r s i rule: finditer.induct)
  case (1 r s i)
  show ?case
  proof (cases "length s < i")
    case True
    then show ?thesis by (subst finditer.simps) simp
  next
    case False
    have "finditer r s (Suc i) = []"
      using False "1.prems" by (intro "1.IH" (1)) simp_all
    with False "1.prems" [of i] show ?thesis by (subst finditer.simps) simp
  qed
qed

lemma findall_array_pattern: "re_findall array_pattern cleaned = []"
  by (simp add: re_findall_def finditer_no_match array_pattern_no_match)

lemma strategy2_never_returns: "strategy2 loads cleaned = FellThrough"
  by (simp add: strategy2_def findall_array_pattern)

text \<open>
  C9, on the code: a sentence followed by an array of one record without a name. The text as
  a whole is not JSON, the bracketed part is a non-empty array. The scan of strategy 2 finds
  no candidate, strategy 3 drops the record for want of a name, strategy 4 fails as
  strategy 1 did, and the decoder returns the empty list.
\<close>

theorem embedded_array_not_decoded:
  \<open>parse_json_response
      (loads_table
         [(''[{"part_number": "B-1"}]'', PList [PDict [(''part_number'', PStr ''B-1'')]]),
          (''{"part_number": "B-1"}'', PDict [(''part_number'', PStr ''B-1'')])])
      ''Found: [{"part_number": "B-1"}]'' = Inr []
   \<and> re_findall array_pattern (clean_response ''Found: [{"part_number": "B-1"}]'') = []
   \<and> sublist ''[{"part_number": "B-1"}]'' (clean_response ''Found: [{"part_number": "B-1"}]'')\<close>
proof (intro conjI)
  have c: \<open>clean_response ''Found: [{"part_number": "B-1"}]'' = ''Found: [{"part_number": "B-1"}]''\<close>
    by code_simp
  have objs: \<open>re_findall object_pattern ''Found: [{"part_number": "B-1"}]''
      = [''{"part_number": "B-1"}'']\<close>
    by code_simp
  have subs: \<open>re_sub trailing_comma_bracket '']''
        (re_sub trailing_comma_brace ''}'' ''Found: [{"part_number": "B-1"}]'')
      = ''Found: [{"part_number": "B-1"}]''\<close>
    by code_simp
  show \<open>parse_json_response
      (loads_table
         [(''[{"part_number": "B-1"}]'', PList [PDict [(''part_number'', PStr ''B-1'')]]),
          (''{"part_number": "B-1"}'', PDict [(''part_number'', PStr ''B-1'')])])
      ''Found: [{"part_number": "B-1"}]'' = Inr []\<close>
    by (simp add: parse_json_response_def parse_strategies_def c strategy2_never_returns
        strategy1_def strategy3_def strategy4_def objs subs or_else_def loads_table_def
        py_get_def)
  show \<open>re_findall array_pattern (clean_response ''Found: [{"part_number": "B-1"}]'') = []\<close>
    by (rule findall_array_pattern)
  have \<open>''Found: [{"part_number": "B-1"}]'' = ''Found: '' @ ''[{"part_number": "B-1"}]'' @ []\<close>
    by simp
  then show \<open>sublist ''[{"part_number": "B-1"}]'' (clean_response ''Found: [{"part_number": "B-1"}]'')\<close>
    unfolding c sublist_def by blast
qed


section \<open>Properties of the matcher\<close>

lemma exact_loop_find:
  "exact_loop kb_matches = find (\<lambda>k. is_exact k \<and> kb_score k > 8 / 10) kb_matches"
  by (induction kb_matches) (simp_all add: is_exact_def kb_score_def)

lemma find_app:
  "find P (xs @ ys) = (case find P xs of None \<Rightarrow> find P ys | Some x \<Rightarrow> Some x)"
  by (induction xs) simp_all

text \<open>\<open>max_by\<close> returns the first element that none exceeds.\<close>

lemma max_by_first_maximal:
  assumes "find (\<lambda>z. \<forall>y \<in> set pre. key y \<le> key z) pre = Some b"
  shows "find (\<lambda>z. \<forall>y \<in> set (pre @ xs). key y \<le> key z) (pre @ xs) = Some (max_by key b xs)"
  using assms
proof (induction xs arbitrary: pre b)
  case Nil
  then show ?case by simp
next
  case (Cons x xs)
  from Cons.prems have b_in: "b \<in> set pre" and b_max: "\<forall>y \<in> set pre. key y \<le> key b"
    by (auto simp: find_Some_iff)
  let ?b = "if key b < key x then x else b"
  have "find (\<lambda>z. \<forall>y \<in> set (pre @ [x]). key y \<le> key z) (pre @ [x]) = Some ?b"
  proof (cases "key b < key x")
    case True
    have "find (\<lambda>z. \<forall>y \<in> set (pre @ [x]). key y \<le> key z) pre = None"
      using b_max True by (auto simp: find_None_iff)
    moreover have "\<forall>y \<in> set (pre @ [x]). key y \<le> key x" using b_max True by auto
    ultimately show ?thesis using True by (simp add: find_app)
  next
    case False
    have "find (\<lambda>z. \<forall>y \<in> set (pre @ [x]). key y \<le> key z) pre
        = find (\<lambda>z. \<forall>y \<in> set pre. key y \<le> key z) pre"
      using b_in False by (intro find_cong) auto
    with Cons.prems False show ?thesis by (simp add: find_app)
  qed
  from Cons.IH [OF this] show ?case by simp
qed

lemma max_by_highest_scoring: "highest_scoring (k # ks) = Some (max_by kb_score k ks)"
  using max_by_first_maximal [where key = kb_score and pre = "[k]" and b = k and xs = ks] by (simp add: highest_scoring_def)

lemma highest_scoring_Nil: "highest_scoring [] = None"
  by (simp add: highest_scoring_def)

lemma from_kb_selection: "from_kb k score match_type = knowledge_selection k score match_type"
  by (simp add: from_kb_def knowledge_selection_def get_or_def)

lemma from_supplier_selection: "from_supplier c source = supplier_selection c source"
  by (simp add: from_supplier_def supplier_selection_def)

text \<open>
  The order the code decides in: (a) the first exact knowledge record with a score above
  0.80, its score capped at 0.95; else (b) the first supplier candidate if its score is
  above 0.70; else (c) the highest-scoring knowledge record of any match type, the first
  one on ties, if its score is above 0.50, returned with the match type fuzzy and the score
  floored at 0.60; else (d) the first supplier candidate, marked low-confidence; else (e)
  no match.
\<close>

lemma select_best_match_order:
  "select_best_match item kb_matches supplier_matches
     = any_type_select_best_match kb_matches supplier_matches"
proof (cases "find (\<lambda>k. is_exact k \<and> kb_score k > 8 / 10) kb_matches")
  case (Some k)
  then have "kb_score k > 8 / 10" by (auto simp: find_Some_iff)
  then have "get_or (kb_confidence_score k) (9 / 10) = kb_score k"
    by (cases "kb_confidence_score k") (simp_all add: kb_score_def get_or_def)
  with Some show ?thesis
    by (simp add: select_best_match_def any_type_select_best_match_def priority_select_def
        exact_loop_find from_kb_selection from_supplier_selection)
next
  case None
  show ?thesis
  proof (cases kb_matches)
    case Nil
    with None show ?thesis
      by (cases supplier_matches)
        (simp_all add: select_best_match_def any_type_select_best_match_def priority_select_def
          exact_loop_find highest_scoring_Nil from_kb_selection from_supplier_selection)
  next
    case (Cons k ks)
    let ?best = "max_by kb_score k ks"
    have floor: "kb_score ?best > 5 / 10 \<Longrightarrow> get_or (kb_confidence_score ?best) (6 / 10) = kb_score ?best"
      by (cases "kb_confidence_score ?best") (simp_all add: kb_score_def get_or_def)
    have key: "(\<lambda>x. get_or (kb_confidence_score x) 0) = kb_score"
      by (simp add: kb_score_def fun_eq_iff)
    from None Cons floor show ?thesis
      by (cases supplier_matches)
        (simp_all add: select_best_match_def any_type_select_best_match_def priority_select_def
          exact_loop_find max_by_highest_scoring key Let_def kb_score_def [symmetric]
          from_kb_selection from_supplier_selection)
  qed
qed


text \<open>
  C1, on the code: no supplier candidate, an exact knowledge record of score 0.70 and a
  fuzzy one of score 0.60. Steps (a) and (b) do not apply. Step (c) of the priority order
  selects the highest-scoring fuzzy match, the second record with its score 0.60; the
  matcher takes the maximum over all knowledge records and returns the exact record with
  the score 0.70, relabelled fuzzy.
\<close>

theorem select_best_match_not_among_fuzzy:
  "select_best_match []
      [\<lparr> kb_id = Some 1, kb_material_name = Some ''M6 Hex Bolt'', kb_part_number = Some ''BOLT-M6'',
         kb_confidence_score = Some (7 / 10), kb_match_type = Some ''exact'' \<rparr>,
       \<lparr> kb_id = Some 2, kb_material_name = Some ''M6 Bolt'', kb_part_number = Some ''B-6'',
         kb_confidence_score = Some (6 / 10), kb_match_type = Some ''fuzzy'' \<rparr>]
      []
     = Some \<lparr> bm_id = Some 1, bm_supplier_description = ''M6 Hex Bolt'',
              bm_supplier_part_number = ''BOLT-M6'', bm_confidence_score = 7 / 10,
              bm_match_type = ''fuzzy'', bm_match_source = ''knowledge_base'',
              bm_supplier_data = None \<rparr>
   \<and> claimed_select_best_match
      [\<lparr> kb_id = Some 1, kb_material_name = Some ''M6 Hex Bolt'', kb_part_number = Some ''BOLT-M6'',
         kb_confidence_score = Some (7 / 10), kb_match_type = Some ''exact'' \<rparr>,
       \<lparr> kb_id = Some 2, kb_material_name = Some ''M6 Bolt'', kb_part_number = Some ''B-6'',
         kb_confidence_score = Some (6 / 10), kb_match_type = Some ''fuzzy'' \<rparr>]
      []
     = Some \<lparr> bm_id = Some 2, bm_supplier_description = ''M6 Bolt'',
              bm_supplier_part_number = ''B-6'', bm_confidence_score = 6 / 10,
              bm_match_type = ''fuzzy'', bm_match_source = ''knowledge_base'',
              bm_supplier_data = None \<rparr>
   \<and> select_best_match []
      [\<lparr> kb_id = Some 1, kb_material_name = Some ''M6 Hex Bolt'', kb_part_number = Some ''BOLT-M6'',
         kb_confidence_score = Some (7 / 10), kb_match_type = Some ''exact'' \<rparr>,
       \<lparr> kb_id = Some 2, kb_material_name = Some ''M6 Bolt'', kb_part_number = Some ''B-6'',
         kb_confidence_score = Some (6 / 10), kb_match_type = Some ''fuzzy'' \<rparr>]
      []
     \<noteq> claimed_select_best_match
      [\<lparr> kb_id = Some 1, kb_material_name = Some ''M6 Hex Bolt'', kb_part_number = Some ''BOLT-M6'',
         kb_confidence_score = Some (7 / 10), kb_match_type = Some ''exact'' \<rparr>,
       \<lparr> kb_id = Some 2, kb_material_name = Some ''M6 Bolt'', kb_part_number = Some ''B-6'',
         kb_confidence_score = Some (6 / 10), kb_match_type = Some ''fuzzy'' \<rparr>]
      []"
  by (simp add: select_best_match_def claimed_select_best_match_def priority_select_def
      highest_scoring_def is_exact_def kb_score_def get_or_def from_kb_def knowledge_selection_def)

subsection \<open>The match result\<close>

lemma map_of_dict_with:
  "map_of (dict_with d kvs) k =
     (case map_of (rev kvs) k of Some v \<Rightarrow> Some v | None \<Rightarrow> map_of d k)"
proof (induction kvs arbitrary: d)
  case Nil
  show ?case by (simp add: dict_with_def)
next
  case (Cons kv kvs)
  obtain k' v' where kv: "kv = (k', v')" by (cases kv)
  have "dict_with d (kv # kvs) = dict_with (AList.update k' v' d) kvs"
    by (simp add: dict_with_def kv)
  then show ?case
    using Cons.IH [of "AList.update k' v' d"]
    by (auto simp: kv update_conv' map_add_def split: option.splits)
qed

text \<open>
  What the match result keeps: every entry of the item under a key that is none of the
  twelve stored keys, and under \<open>qa_material_name\<close> the item's own value of that key or,
  without one, its name.
\<close>

lemma match_one_keeps_other_keys:
  assumes "match_one find_similar_items overlap_score pct timestamp workflow_id supplier_bom item = Inr r"
      and "k \<notin> set matching_keys"
  shows "map_of r k = map_of item k"
  using assms
  by (auto simp: match_one_def Let_def map_of_dict_with matching_keys_def split: sum.splits)

lemma match_one_qa_material_name:
  assumes "match_one find_similar_items overlap_score pct timestamp workflow_id supplier_bom item = Inr r"
  shows "map_of r ''qa_material_name'' =
           Some (case map_of item ''qa_material_name'' of
                   Some v \<Rightarrow> v
                 | None \<Rightarrow> (case map_of item ''name'' of Some v \<Rightarrow> v | None \<Rightarrow> PStr []))"
  using assms
  by (auto simp: match_one_def Let_def map_of_dict_with item_material_name_def py_get_or_def
      split: sum.splits option.splits)

text \<open>
  C8, on the code: an item with the extraction confidence 0.9 and a supplier table whose
  only row does not match it. The match result has the item's keys, but under
  \<open>confidence_score\<close> it holds the confidence of the match, 0, in place of the item's 0.9.
\<close>

theorem match_result_replaces_confidence_score:
  "match_items_with_knowledge_base (\<lambda>material_name part_number. Inr []) overlap_score pct clock
      [[(''name'', PStr ''M6x20mm Hex Bolt''), (''qa_material_name'', PStr ''M6x20mm Hex Bolt''),
        (''confidence_score'', PNum (9 / 10)), (''part_number'', PStr ''BOLT-M6-20-SS'')]]
      [\<lparr> si_description = ''Copper Washer 8mm'', si_part_number = ''WSH-8'',
         si_supplier_name = ''ACME'', si_category = ''hardware'' \<rparr>]
      workflow_id
     = Inr [[(''name'', PStr ''M6x20mm Hex Bolt''), (''qa_material_name'', PStr ''M6x20mm Hex Bolt''),
             (''confidence_score'', PNum 0), (''part_number'', PStr ''BOLT-M6-20-SS''),
             (''knowledge_base_matches'', PNum 0), (''supplier_matches'', PNum 0),
             (''has_previous_match'', PBool False), (''match_source'', PStr ''no_match''),
             (''supplier_description'', PStr []), (''supplier_part_number'', PStr []),
             (''reasoning'', PStr ''No matches found in knowledge base or supplier BOM''),
             (''processing_timestamp'', PStr (clock 0)), (''matcher_version'', PStr ''2.0''),
             (''workflow_id'', PStr workflow_id)]]"
proof -
  have sup: "find_supplier_matches overlap_score
      [(''name'', PStr ''M6x20mm Hex Bolt''), (''qa_material_name'', PStr ''M6x20mm Hex Bolt''),
       (''confidence_score'', PNum (9 / 10)), (''part_number'', PStr ''BOLT-M6-20-SS'')]
      [\<lparr> si_description = ''Copper Washer 8mm'', si_part_number = ''WSH-8'',
         si_supplier_name = ''ACME'', si_category = ''hardware'' \<rparr>] = Inr []"
    by code_simp
  show ?thesis
    by (simp add: match_items_with_knowledge_base_def match_one_def sup Let_def
        select_best_match_def generate_match_reasoning_def determine_match_source_def
        dict_with_def item_material_name_def py_get_or_def)
qed


end
